theory Spec2Isabelle
  imports Main "HOL-Library.Sublist"
begin

section \<open>JavaScript strings and arrays\<close>

text \<open>
  Identifiers, file contents and paths are modelled as \<open>string\<close>, a list of 8-bit
  characters; every literal of the program is ASCII. \<open>String.prototype.toUpperCase\<close> and
  \<open>toLowerCase\<close> belong to the JavaScript runtime: they follow the Unicode case mappings,
  work on a whole string and may change its length (\<open>toUpperCase\<close> turns a sharp s into
  \<open>SS\<close>). The model takes the two conversions as parameters and assumes nothing about
  them; strings with a code unit above 255 are outside the model.
\<close>

record runtime =
  toUpperCase :: "string \<Rightarrow> string"
  toLowerCase :: "string \<Rightarrow> string"

text \<open>\<open>s.charAt(0)\<close> is the first character as a string, or the empty string.\<close>

definition charAt0 :: "string \<Rightarrow> string" where
  "charAt0 s = take 1 s"

text \<open>\<open>s.slice(1)\<close> and \<open>s.slice(0, -1)\<close>.\<close>

definition slice_from1 :: "string \<Rightarrow> string" where
  "slice_from1 s = drop 1 s"

definition slice_0_minus1 :: "string \<Rightarrow> string" where
  "slice_0_minus1 s = take (length s - 1) s"

text \<open>\<open>s.endsWith(t)\<close>.\<close>

definition endsWith :: "string \<Rightarrow> string \<Rightarrow> bool" where
  "endsWith s t = (length t \<le> length s \<and> drop (length s - length t) s = t)"

text \<open>
  \<open>s.split(sep)\<close> for a one-character separator: the result is never empty, and an
  empty input gives one empty segment.
\<close>

fun split_str :: "char \<Rightarrow> string \<Rightarrow> string list" where
  "split_str sep [] = [[]]"
| "split_str sep (c # cs) =
     (if c = sep then [] # split_str sep cs
      else (case split_str sep cs of [] \<Rightarrow> [[c]] | w # ws \<Rightarrow> (c # w) # ws))"

text \<open>\<open>xs.join(sep)\<close>.\<close>

fun join :: "string \<Rightarrow> string list \<Rightarrow> string" where
  "join sep [] = []"
| "join sep [x] = x"
| "join sep (x # y # ys) = x @ sep @ join sep (y # ys)"

section \<open>Identifier derivation\<close>

text \<open>\<open>toCamelCase\<close>: the first segment lowercased, every later one capitalised.\<close>

definition toCamelCase :: "runtime \<Rightarrow> string \<Rightarrow> string" where
  "toCamelCase rt str =
     join [] (map (\<lambda>(index, word).
                 if index = (0::nat) then toLowerCase rt word
                 else toUpperCase rt (charAt0 word) @ toLowerCase rt (slice_from1 word))
              (enumerate 0 (split_str (CHR ''_'') str)))"

definition toPascalCase :: "runtime \<Rightarrow> string \<Rightarrow> string" where
  "toPascalCase rt str =
     join [] (map (\<lambda>word. toUpperCase rt (charAt0 word) @ toLowerCase rt (slice_from1 word))
              (split_str (CHR ''_'') str))"

text \<open>
  The two mutable locals \<open>singularPascalCase\<close> and \<open>pluralPascalCase\<close> of
  \<open>generateMethodsForTable\<close>, as a pair (singular, plural): first the value after the
  \<open>if\<close>/\<open>else\<close> on the suffix of the PascalCase name, then the value after the
  special case for \<open>user_type\<close>.
\<close>

definition pluralizationRule :: "string \<Rightarrow> string \<times> string" where
  "pluralizationRule pascalCaseName =
     (if endsWith pascalCaseName ''s'' \<and> \<not> endsWith pascalCaseName ''ss''
         \<and> \<not> endsWith pascalCaseName ''us'' \<and> \<not> endsWith pascalCaseName ''is''
      then (slice_0_minus1 pascalCaseName, pascalCaseName)
      else (pascalCaseName, pascalCaseName @ ''s''))"

definition specialCase :: "string \<Rightarrow> string \<times> string \<Rightarrow> string \<times> string" where
  "specialCase tableName forms =
     (if tableName = ''user_type'' then (''UserType'', ''UserTypes'') else forms)"

definition singularPascalCase :: "runtime \<Rightarrow> string \<Rightarrow> string" where
  "singularPascalCase rt tableName =
     fst (specialCase tableName (pluralizationRule (toPascalCase rt tableName)))"

definition pluralPascalCase :: "runtime \<Rightarrow> string \<Rightarrow> string" where
  "pluralPascalCase rt tableName =
     snd (specialCase tableName (pluralizationRule (toPascalCase rt tableName)))"

section \<open>Method synthesis\<close>

definition squote :: "string \<Rightarrow> string" where
  "squote s = [CHR 0x27] @ s @ [CHR 0x27]"

text \<open>
  The template literal returned by \<open>generateMethodsForTable\<close>, as a function of the
  four interpolated values. It starts with a line break and has no final one.
\<close>

definition methodBlock :: "string \<Rightarrow> string \<Rightarrow> string \<Rightarrow> string \<Rightarrow> string" where
  "methodBlock tableName pascalCaseName singular plural =
     ''\<newline>  // '' @ pascalCaseName @
     ''\<newline>  get'' @ plural @
     '' = (options?: { select?: string, idField?: string, limit?: number, page?: number, filters?: Record<string, any> }) => this.getAll(''
       @ squote tableName @ '', options);'' @
     ''\<newline>  get'' @ singular @
     '' = (id: string, options?: { select?: string, idField?: string }) => this.getById(''
       @ squote tableName @ '', id, options);'' @
     ''\<newline>  create'' @ singular @
     '' = (data: Database['public']['Tables']['' @ squote tableName @ '']['Insert']) => this.create(''
       @ squote tableName @ '', data);'' @
     ''\<newline>  createMany'' @ plural @
     '' = (data: Database['public']['Tables']['' @ squote tableName @ '']['Insert'][]) => this.createMany(''
       @ squote tableName @ '', data);'' @
     ''\<newline>  update'' @ singular @
     '' = (id: string, data: Database['public']['Tables']['' @ squote tableName @ '']['Update'], options?: { idField?: string }) => this.update(''
       @ squote tableName @ '', id, data, options);'' @
     ''\<newline>  updateMany'' @ plural @
     '' = (updates: Array<{ id: string, data: Database['public']['Tables']['' @ squote tableName @ '']['Update'] }>, options?: { idField?: string }) => this.updateMany(''
       @ squote tableName @ '', updates, options);'' @
     ''\<newline>  delete'' @ singular @
     '' = (id: string, options?: { idField?: string }) => this.delete(''
       @ squote tableName @ '', id, options);''"

definition generateMethodsForTable :: "runtime \<Rightarrow> string \<Rightarrow> string" where
  "generateMethodsForTable rt tableName =
     methodBlock tableName (toPascalCase rt tableName)
       (singularPascalCase rt tableName) (pluralPascalCase rt tableName)"

text \<open>
  The text of the \<open>return\<close> statement when the \<open>if\<close>/\<open>else\<close> before the special case has
  left the pair \<open>forms\<close> in the two locals, whatever that pair is.
\<close>

definition methodsAfterRule :: "string \<Rightarrow> string \<Rightarrow> string \<times> string \<Rightarrow> string" where
  "methodsAfterRule tableName pascalCaseName forms =
     methodBlock tableName pascalCaseName
       (fst (specialCase tableName forms)) (snd (specialCase tableName forms))"

section \<open>Placeholder substitution\<close>

text \<open>
  \<open>str.replace(pattern, replacement)\<close> with a string pattern: the first occurrence of
  the pattern is found from the left (\<open>splitAtFirst\<close> returns the text in front of it
  and the text behind it), and the replacement text is expanded as ECMAScript's GetSubstitution does for a
  match with no capture groups: \<open>$$\<close> gives a dollar sign, \<open>$&\<close> the matched text,
  \<open>$`\<close> the text in front of the match, \<open>$'\<close> the text behind it; a dollar sign
  followed by any other character, or at the end, stands for itself.
\<close>

fun startsWith :: "string \<Rightarrow> string \<Rightarrow> bool" where
  "startsWith s [] = True"
| "startsWith [] (p # ps) = False"
| "startsWith (c # cs) (p # ps) = (c = p \<and> startsWith cs ps)"

fun splitAtFirst :: "string \<Rightarrow> string \<Rightarrow> (string \<times> string) option" where
  "splitAtFirst pat [] = (if pat = [] then Some ([], []) else None)"
| "splitAtFirst pat (c # cs) =
     (if startsWith (c # cs) pat then Some ([], drop (length pat) (c # cs))
      else (case splitAtFirst pat cs of
              None \<Rightarrow> None
            | Some (pre, post) \<Rightarrow> Some (c # pre, post)))"

fun getSubstitution :: "string \<Rightarrow> string \<Rightarrow> string \<Rightarrow> string \<Rightarrow> string" where
  "getSubstitution matched pre post [] = []"
| "getSubstitution matched pre post [c] = [c]"
| "getSubstitution matched pre post (c # d # cs) =
     (if c = CHR ''$'' then
        (if d = CHR ''$'' then CHR ''$'' # getSubstitution matched pre post cs
         else if d = CHR ''&'' then matched @ getSubstitution matched pre post cs
         else if d = CHR 0x60 then pre @ getSubstitution matched pre post cs
         else if d = CHR 0x27 then post @ getSubstitution matched pre post cs
         else c # getSubstitution matched pre post (d # cs))
      else c # getSubstitution matched pre post (d # cs))"

definition replace :: "string \<Rightarrow> string \<Rightarrow> string \<Rightarrow> string" where
  "replace str pat replacement =
     (case splitAtFirst pat str of
        None \<Rightarrow> str
      | Some (pre, post) \<Rightarrow> pre @ getSubstitution pat pre post replacement @ post)"

definition placeholder :: string where
  "placeholder = ''// [TABLE_METHODS]''"

text \<open>
  An occurrence of a pattern at an offset of a text, in the words of the
  specification.
\<close>

definition occursAt :: "string \<Rightarrow> string \<Rightarrow> nat \<Rightarrow> bool" where
  "occursAt pat str i = (\<exists>pre post. str = pre @ pat @ post \<and> length pre = i)"

definition firstOccurrence :: "string \<Rightarrow> string \<Rightarrow> string \<Rightarrow> string \<Rightarrow> bool" where
  "firstOccurrence pat str pre post =
     (str = pre @ pat @ post \<and> (\<forall>i<length pre. \<not> occursAt pat str i))"

section \<open>Paths\<close>

text \<open>
  \<open>path.dirname\<close> and \<open>path.resolve\<close> of Node's POSIX \<open>path\<close> module, which belongs to
  the runtime and not to the repository. \<open>dirname\<close> drops trailing slashes and the
  last segment; \<open>resolve\<close> concatenates its arguments from the right up to the first
  absolute one (falling back on the working directory) and normalises \<open>.\<close>, \<open>..\<close>
  and repeated slashes.
\<close>

definition isSlash :: "char \<Rightarrow> bool" where
  "isSlash c = (c = CHR ''/'')"

definition dropWhileEnd :: "(char \<Rightarrow> bool) \<Rightarrow> string \<Rightarrow> string" where
  "dropWhileEnd P s = rev (dropWhile P (rev s))"

definition dirname :: "string \<Rightarrow> string" where
  "dirname path =
     (if path = [] then ''.''
      else
        let hasRoot = isSlash (hd path);
            upto = dropWhileEnd (\<lambda>c. \<not> isSlash c) (dropWhileEnd isSlash (tl path))
        in if upto = [] then (if hasRoot then ''/'' else ''.'')
           else if hasRoot \<and> length upto = 1 then ''//''
           else hd path # butlast upto)"

fun normalizeSegments :: "bool \<Rightarrow> string list \<Rightarrow> string list \<Rightarrow> string list" where
  "normalizeSegments allowAboveRoot res [] = res"
| "normalizeSegments allowAboveRoot res (seg # segs) =
     (if seg = [] \<or> seg = ''.'' then normalizeSegments allowAboveRoot res segs
      else if seg = ''..'' then
        (if res \<noteq> [] \<and> last res \<noteq> ''..'' then normalizeSegments allowAboveRoot (butlast res) segs
         else if allowAboveRoot then normalizeSegments allowAboveRoot (res @ [''..'']) segs
         else normalizeSegments allowAboveRoot res segs)
      else normalizeSegments allowAboveRoot (res @ [seg]) segs)"

definition normalizeString :: "string \<Rightarrow> bool \<Rightarrow> string" where
  "normalizeString path allowAboveRoot =
     join ''/'' (normalizeSegments allowAboveRoot [] (split_str (CHR ''/'') path))"

text \<open>The loop of \<open>resolve\<close> over its arguments from the right, the working directory last.\<close>

fun resolveLoop :: "string list \<Rightarrow> string \<Rightarrow> string \<times> bool" where
  "resolveLoop [] resolvedPath = (resolvedPath, False)"
| "resolveLoop (path # paths) resolvedPath =
     (if path = [] then resolveLoop paths resolvedPath
      else if isSlash (hd path) then (path @ ''/'' @ resolvedPath, True)
      else resolveLoop paths (path @ ''/'' @ resolvedPath))"

definition resolve :: "string \<Rightarrow> string list \<Rightarrow> string" where
  "resolve processCwd paths =
     (case resolveLoop (rev paths @ [processCwd]) [] of
        (resolvedPath, resolvedAbsolute) \<Rightarrow>
          let normalized = normalizeString resolvedPath (\<not> resolvedAbsolute)
          in if resolvedAbsolute then CHR ''/'' # normalized
             else if normalized \<noteq> [] then normalized else ''.'')"

text \<open>
  One invocation of the script: the working directory and the two positional
  arguments (an absent argument is the empty string: both are falsy for the test on
  the arguments).
\<close>

record invocation =
  cwd :: string
  typeFilePath :: string
  outputFilePath :: string

definition TYPE_FILE_PATH :: "invocation \<Rightarrow> string" where
  "TYPE_FILE_PATH a = resolve (cwd a) [cwd a, typeFilePath a]"

definition OUTPUT_FILE_PATH :: "invocation \<Rightarrow> string" where
  "OUTPUT_FILE_PATH a = resolve (cwd a) [cwd a, outputFilePath a]"

definition TEMPLATE_FILE_PATH :: "invocation \<Rightarrow> string" where
  "TEMPLATE_FILE_PATH a = resolve (cwd a) [cwd a, dirname (outputFilePath a), ''SupabaseApi.ts'']"

section \<open>Parse trees and table extraction\<close>

text \<open>
  The tree \<open>ts.createSourceFile\<close> returns, as far as \<open>extractTableNames\<close> looks at
  it: the kind of a node (a property signature with its name, a type literal, or
  anything else), its span in the source text, and its children in the order
  \<open>ts.forEachChild\<close> enumerates them. The parent of a node is the node it is a child
  of; the source file has none. The parser itself is a parameter of the model.
\<close>

datatype property_name = Identifier (identifierText: string) | OtherPropertyName

datatype syntax_kind =
    PropertySignature (name: "property_name option")
  | TypeLiteral
  | OtherKind

datatype node = Node (kind: syntax_kind) (pos: nat) (endPos: nat) (children: "node list")

definition isPropertySignature :: "node \<Rightarrow> bool" where
  "isPropertySignature n = (case kind n of PropertySignature _ \<Rightarrow> True | _ \<Rightarrow> False)"

definition isTypeLiteralNode :: "node \<Rightarrow> bool" where
  "isTypeLiteralNode n = (kind n = TypeLiteral)"

text \<open>\<open>n.name && ts.isIdentifier(n.name)\<close>, giving the identifier's text.\<close>

definition identifierName :: "node \<Rightarrow> string option" where
  "identifierName n =
     (case kind n of
        PropertySignature (Some (Identifier t)) \<Rightarrow> Some t
      | _ \<Rightarrow> None)"

text \<open>
  The condition of \<open>visit\<close>, on a node and its ancestors (the parent first): the node
  is a property signature, its parent a type literal, the parent's parent a property
  signature whose name is the identifier \<open>Tables\<close>, and the node's name an identifier.
\<close>

definition isTableSignature :: "node list \<Rightarrow> node \<Rightarrow> bool" where
  "isTableSignature ancestors n =
     (isPropertySignature n \<and>
      (case ancestors of
         parent # grandparent # _ \<Rightarrow>
           isTypeLiteralNode parent \<and> isPropertySignature grandparent
           \<and> identifierName grandparent = Some ''Tables''
           \<and> identifierName n \<noteq> None
       | _ \<Rightarrow> False))"

text \<open>
  \<open>visit\<close> pushes onto \<open>tableNames\<close>, then \<open>ts.forEachChild(node, visit)\<close> visits the
  children from left to right (\<open>visit\<close> returns nothing, so no child stops the
  iteration).
\<close>

fun visit :: "node list \<Rightarrow> node \<Rightarrow> string list \<Rightarrow> string list"
  and forEachChild_visit :: "node list \<Rightarrow> node list \<Rightarrow> string list \<Rightarrow> string list" where
  "visit ancestors (Node k p e cs) tableNames =
     forEachChild_visit (Node k p e cs # ancestors) cs
       (if isTableSignature ancestors (Node k p e cs)
        then tableNames @ [the (identifierName (Node k p e cs))]
        else tableNames)"
| "forEachChild_visit ancestors [] tableNames = tableNames"
| "forEachChild_visit ancestors (c # cs) tableNames =
     forEachChild_visit ancestors cs (visit ancestors c tableNames)"

definition tableNamesOf :: "node \<Rightarrow> string list" where
  "tableNamesOf sourceFile = visit [] sourceFile []"

text \<open>
  The pre-order traversal in the words of the specification: a node before its
  children, the children from left to right, each node with its ancestors.
\<close>

fun preorder :: "node list \<Rightarrow> node \<Rightarrow> (node list \<times> node) list" where
  "preorder ancestors (Node k p e cs) =
     (ancestors, Node k p e cs) # concat (map (preorder (Node k p e cs # ancestors)) cs)"

definition tableSignatures :: "node \<Rightarrow> node list" where
  "tableSignatures sourceFile =
     map snd (filter (\<lambda>(ancestors, n). isTableSignature ancestors n) (preorder [] sourceFile))"

text \<open>
  Spans as a parser assigns them: a node's children lie inside its span, one after
  the other from left to right.
\<close>

fun spansInOrder :: "nat \<Rightarrow> node list \<Rightarrow> nat \<Rightarrow> bool"
  and wellSpanned :: "node \<Rightarrow> bool" where
  "spansInOrder lo [] hi = (lo \<le> hi)"
| "spansInOrder lo (c # cs) hi = (lo \<le> pos c \<and> wellSpanned c \<and> spansInOrder (endPos c) cs hi)"
| "wellSpanned (Node k p e cs) = spansInOrder p cs e"


section \<open>The file system and the console\<close>

text \<open>
  The part of the world the generator acts on: regular files with their content,
  directories, the operations the system refuses on a path (permissions, locks), and
  the lines written to the console. A \<open>fs\<close> call that fails throws and leaves the
  world as it was.
\<close>

datatype fs_op = OpRead | OpWrite | OpUnlink | OpMkdir

datatype fs_error = ENOENT | EISDIR | ENOTDIR | EEXIST | EACCES

datatype console_line =
    ConsoleLog string
  | ConsoleError string "fs_error option"

record world =
  files :: "string \<rightharpoonup> string"
  dirs :: "string set"
  denied :: "(fs_op \<times> string) set"
  console :: "console_line list"

datatype 'a result = Returned 'a | Threw fs_error

definition consoleLog :: "string \<Rightarrow> world \<Rightarrow> world" where
  "consoleLog msg w = w\<lparr>console := console w @ [ConsoleLog msg]\<rparr>"

definition consoleError :: "string \<Rightarrow> fs_error option \<Rightarrow> world \<Rightarrow> world" where
  "consoleError msg err w = w\<lparr>console := console w @ [ConsoleError msg err]\<rparr>"

definition existsSync :: "string \<Rightarrow> world \<Rightarrow> bool" where
  "existsSync path w = (files w path \<noteq> None \<or> path \<in> dirs w)"

definition readFileSync :: "string \<Rightarrow> world \<Rightarrow> string result" where
  "readFileSync path w =
     (if path \<in> dirs w then Threw EISDIR
      else if (OpRead, path) \<in> denied w then Threw EACCES
      else (case files w path of None \<Rightarrow> Threw ENOENT | Some content \<Rightarrow> Returned content))"

definition writeFileSync :: "string \<Rightarrow> string \<Rightarrow> world \<Rightarrow> unit result \<times> world" where
  "writeFileSync path content w =
     (if path \<in> dirs w then (Threw EISDIR, w)
      else if dirname path \<notin> dirs w then (Threw ENOENT, w)
      else if (OpWrite, path) \<in> denied w then (Threw EACCES, w)
      else (Returned (), w\<lparr>files := (files w)(path \<mapsto> content)\<rparr>))"

definition unlinkSync :: "string \<Rightarrow> world \<Rightarrow> unit result \<times> world" where
  "unlinkSync path w =
     (if path \<in> dirs w then (Threw EISDIR, w)
      else if files w path = None then (Threw ENOENT, w)
      else if (OpUnlink, path) \<in> denied w then (Threw EACCES, w)
      else (Returned (), w\<lparr>files := (files w)(path := None)\<rparr>))"

text \<open>The directories from the root down to an absolute path, the path included.\<close>

definition pathChain :: "string \<Rightarrow> string list" where
  "pathChain path =
     map (\<lambda>segs. CHR ''/'' # join ''/'' segs)
       (prefixes (filter (\<lambda>seg. seg \<noteq> []) (split_str (CHR ''/'') path)))"

text \<open>\<open>fs.mkdirSync(path, { recursive: true })\<close>.\<close>

definition mkdirSync_recursive :: "string \<Rightarrow> world \<Rightarrow> unit result \<times> world" where
  "mkdirSync_recursive path w =
     (if files w path \<noteq> None then (Threw EEXIST, w)
      else if \<exists>p \<in> set (pathChain path). files w p \<noteq> None then (Threw ENOTDIR, w)
      else if (OpMkdir, path) \<in> denied w then (Threw EACCES, w)
      else (Returned (), w\<lparr>dirs := dirs w \<union> set (pathChain path)\<rparr>))"

text \<open>Decimal digits of a number, for \<open>tableNames.length\<close> in a message.\<close>

function decimal :: "nat \<Rightarrow> string" where
  "decimal n = (if n < 10 then [char_of (48 + n)] else decimal (n div 10) @ [char_of (48 + n mod 10)])"
  by pat_completeness auto
termination
  by (relation "measure id") auto

declare decimal.simps [simp del]

section \<open>The template\<close>

text \<open>
  The content \<open>generateTemplateFile\<close> writes when no template exists: the class
  with the generic operations and, in its last lines, the placeholder. The list holds
  the lines of the text.
\<close>

definition templateLines :: "string list" where
  "templateLines = [
     ''import { createClient } from './supabase';'',
     ''import { Database } from '../types/supabase';'',
     ''import { PostgrestError } from '@supabase/supabase-js';'',
     [],
     ''/**'',
     '' * SupabaseApiGenerator - Generates CRUD operations for database tables'',
     '' * '',
     '' * This class automatically creates CRUD operations for tables defined in the '',
     '' * Database type interface. It provides methods to get, create, update, and delete'',
     '' * records for each table.'',
     '' */'',
     ''export class SupabaseApiGenerator {'',
     ''  private supabase = createClient();'',
     ''  '',
     ''  /**'',
     ''   * Apply filters to a query'',
     ''   * @param query - The query to apply filters to'',
     ''   * @param filters - Object where keys are column names and values are values to filter by'',
     ''   * @returns The query with filters applied'',
     ''   */'',
     ''  private applyFilters(query: any, filters?: Record<string, any>): any {'',
     ''    if (!filters) return query;'',
     ''    '',
     ''    let filteredQuery = query;'',
     ''    '',
     ''    // Apply each filter'',
     ''    Object.entries(filters).forEach(([column, value]) => {'',
     ''      if (value === null) {'',
     ''        filteredQuery = filteredQuery.is(column, null);'',
     ''      } else if (Array.isArray(value)) {'',
     ''        filteredQuery = filteredQuery.in(column, value);'',
     ''      } else if (typeof value === 'object') {'',
     ''        // Handle special operators'',
     ''        if ('gt' in value) filteredQuery = filteredQuery.gt(column, value.gt);'',
     ''        if ('gte' in value) filteredQuery = filteredQuery.gte(column, value.gte);'',
     ''        if ('lt' in value) filteredQuery = filteredQuery.lt(column, value.lt);'',
     ''        if ('lte' in value) filteredQuery = filteredQuery.lte(column, value.lte);'',
     ''        if ('neq' in value) filteredQuery = filteredQuery.neq(column, value.neq);'',
     ''        if ('like' in value) filteredQuery = filteredQuery.like(column, value.like);'',
     ''        if ('ilike' in value) filteredQuery = filteredQuery.ilike(column, value.ilike);'',
     ''        if ('is' in value) filteredQuery = filteredQuery.is(column, value.is);'',
     ''      } else {'',
     ''        filteredQuery = filteredQuery.eq(column, value);'',
     ''      }'',
     ''    });'',
     ''    '',
     ''    return filteredQuery;'',
     ''  }'',
     ''  '',
     ''  /**'',
     ''   * Get all records from a specific table'',
     ''   * @param tableName - The name of the table'',
     ''   * @param options - Additional options for the query'',
     ''   * @returns Promise with all records'',
     ''   */'',
     ''  async getAll<'',
     ''    T extends keyof Database['public']['Tables']'',
     ''  >(tableName: T, options?: { '',
     ''    select?: string, '',
     ''    idField?: string,'',
     ''    limit?: number,'',
     ''    page?: number,'',
     ''    filters?: Record<string, any>'',
     ''  }): Promise<Database['public']['Tables'][T]['Row'][]> {'',
     ''    try {'',
     ''      let query = this.supabase.from(tableName).select(options?.select || '*');'',
     ''      '',
     ''      // Apply filters if provided'',
     ''      if (options?.filters) {'',
     ''        query = this.applyFilters(query, options.filters);'',
     ''      }'',
     ''      '',
     ''      // Add pagination if needed'',
     ''      if (options?.limit !== undefined) {'',
     ''        const page = options.page || 0;'',
     ''        const offset = page * options.limit;'',
     ''        query = query.range(offset, offset + options.limit - 1);'',
     ''      }'',
     ''      '',
     ''      const { data, error } = await query;'',
     ''      '',
     ''      if (error) {'',
     ''        throw error;'',
     ''      }'',
     ''      '',
     ''      // Explicitly cast through unknown to ensure type safety'',
     ''      return (data || []) as unknown as Database['public']['Tables'][T]['Row'][];'',
     ''    } catch (error) {'',
     ''      console.error(`Error in getAll for ${String(tableName)}:`, error);'',
     ''      throw error;'',
     ''    }'',
     ''  }'',
     ''  '',
     ''  /**'',
     ''   * Get a record by ID from a specific table'',
     ''   * @param tableName - The name of the table'',
     ''   * @param id - The ID of the record'',
     ''   * @param options - Additional options for the query'',
     ''   * @returns Promise with the record'',
     ''   */'',
     ''  async getById<'',
     ''    T extends keyof Database['public']['Tables']'',
     ''  >(tableName: T, id: string | number, options?: { select?: string, idField?: string }): Promise<Database['public']['Tables'][T]['Row'] | null> {'',
     ''    try {'',
     ''      const idField = options?.idField || 'id';'',
     ''      '',
     ''      const { data, error } = await this.supabase'',
     ''        .from(tableName)'',
     ''        .select(options?.select || '*')'',
     ''        .eq(idField, id)'',
     ''        .single();'',
     ''      '',
     ''      if (error) {'',
     ''        if (error.code === 'PGRST116') {'',
     ''          return null; // Record not found'',
     ''        }'',
     ''        throw error;'',
     ''      }'',
     ''      '',
     ''      // Explicitly cast through unknown to ensure type safety'',
     ''      return data as unknown as Database['public']['Tables'][T]['Row'];'',
     ''    } catch (error) {'',
     ''      console.error(`Error in getById for ${String(tableName)}:`, error);'',
     ''      throw error;'',
     ''    }'',
     ''  }'',
     ''  '',
     ''  /**'',
     ''   * Create a new record in a specific table'',
     ''   * @param tableName - The name of the table'',
     ''   * @param data - The data to insert'',
     ''   * @returns Promise with the created record'',
     ''   */'',
     ''  async create<'',
     ''    T extends keyof Database['public']['Tables']'',
     ''  >(tableName: T, data: Database['public']['Tables'][T]['Insert']): Promise<Database['public']['Tables'][T]['Row']> {'',
     ''    try {'',
     ''      const { data: createdData, error } = await this.supabase'',
     ''        .from(tableName)'',
     ''        .insert(data)'',
     ''        .select('*')'',
     ''        .single();'',
     ''      '',
     ''      if (error) {'',
     ''        throw error;'',
     ''      }'',
     ''      '',
     ''      // Explicitly cast through unknown to ensure type safety'',
     ''      return createdData as unknown as Database['public']['Tables'][T]['Row'];'',
     ''    } catch (error) {'',
     ''      console.error(`Error in create for ${String(tableName)}:`, error);'',
     ''      throw error;'',
     ''    }'',
     ''  }'',
     ''  '',
     ''  /**'',
     ''   * Create multiple records in a specific table'',
     ''   * @param tableName - The name of the table'',
     ''   * @param data - Array of data to insert'',
     ''   * @returns Promise with the created records'',
     ''   */'',
     ''  async createMany<'',
     ''    T extends keyof Database['public']['Tables']'',
     ''  >(tableName: T, data: Database['public']['Tables'][T]['Insert'][]): Promise<Database['public']['Tables'][T]['Row'][]> {'',
     ''    try {'',
     ''      const { data: createdData, error } = await this.supabase'',
     ''        .from(tableName)'',
     ''        .insert(data)'',
     ''        .select('*');'',
     ''      '',
     ''      if (error) {'',
     ''        throw error;'',
     ''      }'',
     ''      '',
     ''      // Explicitly cast through unknown to ensure type safety'',
     ''      return (createdData || []) as unknown as Database['public']['Tables'][T]['Row'][];'',
     ''    } catch (error) {'',
     ''      console.error(`Error in createMany for ${String(tableName)}:`, error);'',
     ''      throw error;'',
     ''    }'',
     ''  }'',
     ''  '',
     ''  /**'',
     ''   * Update a record in a specific table'',
     ''   * @param tableName - The name of the table'',
     ''   * @param id - The ID of the record'',
     ''   * @param data - The data to update'',
     ''   * @param options - Additional options for the query'',
     ''   * @returns Promise with the updated record'',
     ''   */'',
     ''  async update<'',
     ''    T extends keyof Database['public']['Tables']'',
     ''  >(tableName: T, id: string | number, data: Database['public']['Tables'][T]['Update'], options?: { idField?: string }): Promise<Database['public']['Tables'][T]['Row']> {'',
     ''    try {'',
     ''      const idField = options?.idField || 'id';'',
     ''      '',
     ''      const { data: updatedData, error } = await this.supabase'',
     ''        .from(tableName)'',
     ''        .update(data)'',
     ''        .eq(idField, id)'',
     ''        .select('*')'',
     ''        .single();'',
     ''      '',
     ''      if (error) {'',
     ''        throw error;'',
     ''      }'',
     ''      '',
     ''      // Explicitly cast through unknown to ensure type safety'',
     ''      return updatedData as unknown as Database['public']['Tables'][T]['Row'];'',
     ''    } catch (error) {'',
     ''      console.error(`Error in update for ${String(tableName)}:`, error);'',
     ''      throw error;'',
     ''    }'',
     ''  }'',
     [],
     ''  /**'',
     ''   * Update multiple records in a specific table'',
     ''   * @param tableName - The name of the table'',
     ''   * @param updates - Array of objects with id and data to update'',
     ''   * @param options - Additional options for the query'',
     ''   * @returns Promise with the updated records'',
     ''   */'',
     ''  async updateMany<'',
     ''    T extends keyof Database['public']['Tables']'',
     ''  >('',
     ''    tableName: T, '',
     ''    updates: Array<{ '',
     ''      id: string | number, '',
     ''      data: Database['public']['Tables'][T]['Update'] '',
     ''    }>,'',
     ''    options?: { idField?: string }'',
     ''  ): Promise<Database['public']['Tables'][T]['Row'][]> {'',
     ''    try {'',
     ''      const idField = options?.idField || 'id';'',
     ''      '',
     ''      // We need to perform the updates one by one since Supabase doesn't support'',
     ''      // updating multiple records with different values in a single query'',
     ''      const updatedRecords: Database['public']['Tables'][T]['Row'][] = [];'',
     ''      '',
     ''      for (const update of updates) {'',
     ''        const { data: updatedData, error } = await this.supabase'',
     ''          .from(tableName)'',
     ''          .update(update.data)'',
     ''          .eq(idField, update.id)'',
     ''          .select('*')'',
     ''          .single();'',
     ''        '',
     ''        if (error) {'',
     ''          throw error;'',
     ''        }'',
     ''        '',
     ''        // Explicitly cast through unknown to ensure type safety'',
     ''        updatedRecords.push(updatedData as unknown as Database['public']['Tables'][T]['Row']);'',
     ''      }'',
     ''      '',
     ''      return updatedRecords;'',
     ''    } catch (error) {'',
     ''      console.error(`Error in updateMany for ${String(tableName)}:`, error);'',
     ''      throw error;'',
     ''    }'',
     ''  }'',
     ''  '',
     ''  /**'',
     ''   * Delete a record from a specific table'',
     ''   * @param tableName - The name of the table'',
     ''   * @param id - The ID of the record'',
     ''   * @param options - Additional options for the query'',
     ''   * @returns Promise with the deleted record'',
     ''   */'',
     ''  async delete<'',
     ''    T extends keyof Database['public']['Tables']'',
     ''  >(tableName: T, id: string | number, options?: { idField?: string }): Promise<void> {'',
     ''    try {'',
     ''      const idField = options?.idField || 'id';'',
     ''      '',
     ''      const { error } = await this.supabase'',
     ''        .from(tableName)'',
     ''        .delete()'',
     ''        .eq(idField, id);'',
     ''      '',
     ''      if (error) {'',
     ''        throw error;'',
     ''      }'',
     ''    } catch (error) {'',
     ''      console.error(`Error in delete for ${String(tableName)}:`, error);'',
     ''      throw error;'',
     ''    }'',
     ''  }'',
     ''  '',
     ''  // Generated CRUD methods for specific tables'',
     ''  // [TABLE_METHODS]'',
     ''}'',
     [],
     ''// Create and export a singleton instance'',
     ''export const API = new SupabaseApiGenerator();'',
     [],
     ''// Export default as the singleton instance'',
     ''export default API;'']"

definition templateContent :: string where
  "templateContent = join ''\<newline>'' templateLines"

section \<open>The generator\<close>

text \<open>
  \<open>extractTableNames\<close>: read the type file, parse it, visit the tree. The parser
  \<open>createSourceFile\<close> is a parameter, as the runtime's case conversions are.
\<close>

definition extractTableNames :: "(string \<Rightarrow> node) \<Rightarrow> invocation \<Rightarrow> world \<Rightarrow> string list result" where
  "extractTableNames createSourceFile a w =
     (case readFileSync (TYPE_FILE_PATH a) w of
        Threw e \<Rightarrow> Threw e
      | Returned fileContent \<Rightarrow> Returned (tableNamesOf (createSourceFile fileContent)))"

definition generateTemplateFile :: "invocation \<Rightarrow> world \<Rightarrow> unit result \<times> world" where
  "generateTemplateFile a w =
     (if \<not> existsSync (TEMPLATE_FILE_PATH a) w then
        (case writeFileSync (TEMPLATE_FILE_PATH a) templateContent w of
           (Threw e, w') \<Rightarrow> (Threw e, w')
         | (Returned _, w') \<Rightarrow>
             (Returned (), consoleLog (''Created template file at '' @ TEMPLATE_FILE_PATH a) w'))
      else (Returned (), w))"

text \<open>The text substituted for the placeholder: the method blocks joined by line breaks.\<close>

definition tableMethods :: "runtime \<Rightarrow> string list \<Rightarrow> string" where
  "tableMethods rt tableNames = join ''\<newline>'' (map (generateMethodsForTable rt) tableNames)"

text \<open>The step of \<open>generateApiClass\<close> that makes sure the output directory exists.\<close>

definition ensureOutputDir :: "invocation \<Rightarrow> world \<Rightarrow> unit result \<times> world" where
  "ensureOutputDir a w =
     (let outputDir = dirname (OUTPUT_FILE_PATH a) in
      if \<not> existsSync outputDir w then
        (case mkdirSync_recursive outputDir w of
           (Threw e, w') \<Rightarrow> (Threw e, w')
         | (Returned _, w') \<Rightarrow>
             (Returned (), consoleLog (''Created output directory at '' @ outputDir) w'))
      else (Returned (), w))"

text \<open>
  The step of \<open>generateApiClass\<close> that deletes an existing output file: the \<open>try\<close>
  block around \<open>unlinkSync\<close>, whose \<open>catch\<close> logs the error and goes on.
\<close>

definition deleteExistingOutput :: "invocation \<Rightarrow> world \<Rightarrow> world" where
  "deleteExistingOutput a w =
     (if existsSync (OUTPUT_FILE_PATH a) w then
        (case unlinkSync (OUTPUT_FILE_PATH a) w of
           (Returned _, w') \<Rightarrow>
             consoleLog (''Successfully deleted existing file at '' @ OUTPUT_FILE_PATH a) w'
         | (Threw e, w') \<Rightarrow>
             consoleError (''Error deleting file at '' @ OUTPUT_FILE_PATH a @ '':'') (Some e) w')
      else w)"

text \<open>
  The callback \<open>generateApiClass\<close> hands to \<open>setTimeout\<close>: it writes the output file and
  reports. It closes over \<open>outputContent\<close> and \<open>tableNames\<close>.
\<close>

definition writeOutput :: "invocation \<Rightarrow> string \<times> string list \<Rightarrow> world \<Rightarrow> unit result \<times> world" where
  "writeOutput a pending w =
     (case pending of (outputContent, tableNames) \<Rightarrow>
        (case writeFileSync (OUTPUT_FILE_PATH a) outputContent w of
           (Threw e, w') \<Rightarrow> (Threw e, w')
         | (Returned _, w') \<Rightarrow>
             (Returned (),
              consoleLog (''Tables: '' @ join '', '' tableNames)
                (consoleLog (''Successfully generated SupabaseApiGenerator with methods for ''
                               @ decimal (length tableNames) @ '' tables!'') w'))))"

text \<open>
  \<open>generateApiClass\<close> up to the call of \<open>setTimeout\<close>: it returns the pending callback's
  data (the output content and the table names), or throws.
\<close>

definition generateApiClass ::
  "runtime \<Rightarrow> (string \<Rightarrow> node) \<Rightarrow> invocation \<Rightarrow> world \<Rightarrow> (string \<times> string list) result \<times> world" where
  "generateApiClass rt createSourceFile a w =
     (case generateTemplateFile a w of
        (Threw e, w1) \<Rightarrow> (Threw e, w1)
      | (Returned _, w1) \<Rightarrow>
     (case extractTableNames createSourceFile a w1 of
        Threw e \<Rightarrow> (Threw e, w1)
      | Returned tableNames \<Rightarrow>
     (case readFileSync (TEMPLATE_FILE_PATH a) w1 of
        Threw e \<Rightarrow> (Threw e, w1)
      | Returned template \<Rightarrow>
          let outputContent = replace template placeholder (tableMethods rt tableNames) in
     (case ensureOutputDir a w1 of
        (Threw e, w2) \<Rightarrow> (Threw e, w2)
      | (Returned _, w2) \<Rightarrow>
          (Returned (outputContent, tableNames), deleteExistingOutput a w2)))))"

text \<open>
  A run of the script: the test on the arguments, \<open>generateApiClass\<close>, then the timer
  callback. An exception nobody catches ends the process; a timer is pending only
  when \<open>generateApiClass\<close> returned.
\<close>

datatype outcome = Completed | UsageError | Uncaught fs_error

definition usage :: string where
  "usage = ''Usage: ts-node supabase-api-generator.ts <type-file-path> <output-file-path>''"

definition run :: "runtime \<Rightarrow> (string \<Rightarrow> node) \<Rightarrow> invocation \<Rightarrow> world \<Rightarrow> outcome \<times> world" where
  "run rt createSourceFile a w =
     (if typeFilePath a = [] \<or> outputFilePath a = [] then
        (UsageError, consoleError usage None w)
      else
        (case generateApiClass rt createSourceFile a w of
           (Threw e, w') \<Rightarrow> (Uncaught e, w')
         | (Returned pending, w') \<Rightarrow>
             (case writeOutput a pending w' of
                (Threw e, w'') \<Rightarrow> (Uncaught e, w'')
              | (Returned _, w'') \<Rightarrow> (Completed, w''))))"

section \<open>The generated \<open>updateMany\<close>\<close>

text \<open>
  \<open>updateMany\<close> of the template class, over a model of the client it calls: a request
  is the table, the data, the identifier field and the identifier; the client answers
  a request with \<open>{ data, error }\<close>, depending on the requests it has received before.
  The state holds the requests sent so far and the console.
\<close>

record ('d, 'i) update_request =
  reqTable :: string
  reqData :: 'd
  reqIdField :: string
  reqId :: 'i

record ('r, 'e) response =
  data :: "'r option"
  error :: "'e option"

record ('d, 'i, 'e) client_state =
  sent :: "('d, 'i) update_request list"
  errorLog :: "(string \<times> 'e) list"

type_synonym ('d, 'i, 'r, 'e) client =
  "('d, 'i) update_request list \<Rightarrow> ('d, 'i) update_request \<Rightarrow> ('r, 'e) response"

text \<open>\<open>await this.supabase.from(tableName).update(data).eq(idField, id).select('*').single()\<close>.\<close>

definition sendUpdate ::
  "('d, 'i, 'r, 'e) client \<Rightarrow> ('d, 'i) update_request \<Rightarrow> ('d, 'i, 'e) client_state
     \<Rightarrow> ('r, 'e) response \<times> ('d, 'i, 'e) client_state" where
  "sendUpdate client req s = (client (sent s) req, s\<lparr>sent := sent s @ [req]\<rparr>)"

text \<open>\<open>options?.idField || 'id'\<close>: an absent or empty field name gives \<open>id\<close>.\<close>

definition idFieldOf :: "string option option \<Rightarrow> string" where
  "idFieldOf options =
     (case options of
        Some (Some f) \<Rightarrow> (if f = [] then ''id'' else f)
      | _ \<Rightarrow> ''id'')"

text \<open>The request the loop sends for one element \<open>{ id, data }\<close> of \<open>updates\<close>.\<close>

definition updateRequest :: "string \<Rightarrow> string \<Rightarrow> 'i \<times> 'd \<Rightarrow> ('d, 'i) update_request" where
  "updateRequest tableName idField update =
     \<lparr>reqTable = tableName, reqData = snd update, reqIdField = idField, reqId = fst update\<rparr>"

text \<open>The \<open>for\<close> loop: it throws the first error and pushes the data otherwise.\<close>

fun updateLoop ::
  "('d, 'i, 'r, 'e) client \<Rightarrow> string \<Rightarrow> string \<Rightarrow> ('i \<times> 'd) list \<Rightarrow> 'r option list
     \<Rightarrow> ('d, 'i, 'e) client_state \<Rightarrow> ('e + 'r option list) \<times> ('d, 'i, 'e) client_state" where
  "updateLoop client tableName idField [] updatedRecords s = (Inr updatedRecords, s)"
| "updateLoop client tableName idField (update # updates) updatedRecords s =
     (case sendUpdate client (updateRequest tableName idField update) s of
        (resp, s') \<Rightarrow>
          (case error resp of
             Some e \<Rightarrow> (Inl e, s')
           | None \<Rightarrow>
               updateLoop client tableName idField updates (updatedRecords @ [data resp]) s'))"

text \<open>The method: the loop inside \<open>try\<close>, and a \<open>catch\<close> that logs and throws again.\<close>

definition updateMany ::
  "('d, 'i, 'r, 'e) client \<Rightarrow> string \<Rightarrow> ('i \<times> 'd) list \<Rightarrow> string option option
     \<Rightarrow> ('d, 'i, 'e) client_state \<Rightarrow> ('e + 'r option list) \<times> ('d, 'i, 'e) client_state" where
  "updateMany client tableName updates options s =
     (case updateLoop client tableName (idFieldOf options) updates [] s of
        (Inl e, s') \<Rightarrow>
          (Inl e, s'\<lparr>errorLog := errorLog s' @ [(''Error in updateMany for '' @ tableName @ '':'', e)]\<rparr>)
      | (Inr updatedRecords, s') \<Rightarrow> (Inr updatedRecords, s'))"

section \<open>Example inputs\<close>

text \<open>
  A runtime for the examples. On strings of ASCII characters the case conversions of
  ECMAScript map the letters \<open>a\<close>..\<open>z\<close> and \<open>A\<close>..\<open>Z\<close> to each other one by one and keep
  every other character, and so does this runtime; the examples apply it to ASCII
  strings only. On the other characters, which it keeps, it is not ECMAScript's
  conversion.
\<close>

definition asciiUpperCase_char :: "char \<Rightarrow> char" where
  "asciiUpperCase_char c =
     (let n = (of_char c :: nat) in if 97 \<le> n \<and> n \<le> 122 then char_of (n - 32) else c)"

definition asciiLowerCase_char :: "char \<Rightarrow> char" where
  "asciiLowerCase_char c =
     (let n = (of_char c :: nat) in if 65 \<le> n \<and> n \<le> 90 then char_of (n + 32) else c)"

definition asciiRuntime :: runtime where
  "asciiRuntime = \<lparr>toUpperCase = map asciiUpperCase_char, toLowerCase = map asciiLowerCase_char\<rparr>"

text \<open>A schema file of 85 characters declaring the tables \<open>post\<close> and \<open>user_type\<close>.\<close>

definition exampleSchema :: string where
  "exampleSchema =
     ''type Database = { public: { Tables: { post: { Row: {} }; user_type: { Row: {} } } } }''"

text \<open>
  The tree \<open>ts.createSourceFile\<close> builds for this text, as \<open>ts.forEachChild\<close> walks it:
  the source file holds the type alias and the end-of-file token, the type alias its
  name and its type, a property signature its name and its type, a type literal its
  members. A node starts where the token before it ends, and a member ends behind its
  semicolon.
\<close>

definition rowSignature :: "nat \<Rightarrow> node" where
  "rowSignature p =
     Node (PropertySignature (Some (Identifier ''Row''))) p (p + 8)
       [Node OtherKind p (p + 4) [], Node TypeLiteral (p + 5) (p + 8) []]"

definition exampleTables :: node where
  "exampleTables =
     Node (PropertySignature (Some (Identifier ''Tables''))) 27 81
       [Node OtherKind 27 34 [],
        Node TypeLiteral 35 81
          [Node (PropertySignature (Some (Identifier ''post''))) 37 56
             [Node OtherKind 37 42 [], Node TypeLiteral 43 55 [rowSignature 45]],
           Node (PropertySignature (Some (Identifier ''user_type''))) 56 79
             [Node OtherKind 56 66 [], Node TypeLiteral 67 79 [rowSignature 69]]]]"

definition exampleSourceFile :: node where
  "exampleSourceFile =
     Node OtherKind 0 85
       [Node OtherKind 0 85
          [Node OtherKind 4 13 [],
           Node TypeLiteral 15 85
             [Node (PropertySignature (Some (Identifier ''public''))) 17 83
                [Node OtherKind 17 24 [], Node TypeLiteral 25 83 [exampleTables]]]],
        Node OtherKind 85 85 []]"






text \<open>A schema file of 59 characters declaring the table \<open>a$\<close>, and its tree.\<close>

definition dollarSchema :: string where
  "dollarSchema = ''type Database = { public: { Tables: { a$: { Row: {} } } } }''"

definition dollarSourceFile :: node where
  "dollarSourceFile =
     Node OtherKind 0 59
       [Node OtherKind 0 59
          [Node OtherKind 4 13 [],
           Node TypeLiteral 15 59
             [Node (PropertySignature (Some (Identifier ''public''))) 17 57
                [Node OtherKind 17 24 [],
                 Node TypeLiteral 25 57
                   [Node (PropertySignature (Some (Identifier ''Tables''))) 27 55
                      [Node OtherKind 27 34 [],
                       Node TypeLiteral 35 55
                         [Node (PropertySignature (Some (Identifier ''a$''))) 37 53
                            [Node OtherKind 37 40 [],
                             Node TypeLiteral 41 53 [rowSignature 43]]]]]]]],
        Node OtherKind 59 59 []]"

text \<open>
  The parser on the two schema files. No example hands it another text; there it
  gives the tree of a text without statements.
\<close>

definition exampleParser :: "string \<Rightarrow> node" where
  "exampleParser fileContent =
     (if fileContent = exampleSchema then exampleSourceFile
      else if fileContent = dollarSchema then dollarSourceFile
      else Node OtherKind 0 (length fileContent)
             [Node OtherKind (length fileContent) (length fileContent) []])"

text \<open>
  A small hand-written template with the placeholder, and one from which the
  placeholder line has been removed.
\<close>

definition smallTemplate :: string where
  "smallTemplate = ''class Api {\<newline>  // [TABLE_METHODS]\<newline>}''"


text \<open>
  A project directory \<open>/w\<close> holding a schema file and a template, for an invocation
  with the output file \<open>src/api.ts\<close> beside the template \<open>src/SupabaseApi.ts\<close>, and for
  an invocation whose output file is \<open>src/SupabaseApi.ts\<close> itself.
\<close>

definition exampleInvocation :: invocation where
  "exampleInvocation = \<lparr>cwd = ''/w'', typeFilePath = ''db.ts'', outputFilePath = ''src/api.ts''\<rparr>"

definition collidingInvocation :: invocation where
  "collidingInvocation =
     \<lparr>cwd = ''/w'', typeFilePath = ''db.ts'', outputFilePath = ''src/SupabaseApi.ts''\<rparr>"

definition exampleWorld :: world where
  "exampleWorld =
     \<lparr>files = [''/w/db.ts'' \<mapsto> exampleSchema, ''/w/src/SupabaseApi.ts'' \<mapsto> smallTemplate],
      dirs = {''/'', ''/w'', ''/w/src''},
      denied = {},
      console = []\<rparr>"

text \<open>The output for the example tree and the small template, and the example world after a run.\<close>

definition exampleOutput :: string where
  "exampleOutput = replace smallTemplate placeholder (tableMethods asciiRuntime [''post'', ''user_type''])"

definition exampleReport :: "console_line list" where
  "exampleReport =
     [ConsoleLog (''Successfully generated SupabaseApiGenerator with methods for ''
                  @ decimal (length [''post'', ''user_type'']) @ '' tables!''),
      ConsoleLog (''Tables: '' @ join '', '' [''post'', ''user_type''])]"

definition generatedWorld :: world where
  "generatedWorld =
     exampleWorld\<lparr>files := (files exampleWorld)(''/w/src/api.ts'' \<mapsto> exampleOutput),
                  console := exampleReport\<rparr>"



text \<open>The same directory with an output file of an earlier run that cannot be deleted.\<close>

definition lockedWorld :: world where
  "lockedWorld =
     \<lparr>files = [''/w/db.ts'' \<mapsto> exampleSchema, ''/w/src/SupabaseApi.ts'' \<mapsto> smallTemplate,
               ''/w/src/api.ts'' \<mapsto> ''old''],
      dirs = {''/'', ''/w'', ''/w/src''},
      denied = {(OpUnlink, ''/w/src/api.ts'')},
      console = []\<rparr>"

text \<open>
  A client for three update requests with the identifiers 1, 2 and 3 that refuses the
  identifier 2.
\<close>

definition refusingClient :: "(string, nat, nat, string) client" where
  "refusingClient history req =
     (if reqId req = 2 then \<lparr>data = None, error = Some ''refused''\<rparr>
      else \<lparr>data = Some (reqId req), error = None\<rparr>)"

section \<open>Properties of the identifier derivation\<close>

lemma endsWith_suffix: "endsWith s t = suffix t s"
proof
  assume "endsWith s t"
  then have "s = take (length s - length t) s @ t"
    by (metis append_take_drop_id endsWith_def)
  then show "suffix t s" by (metis suffixI)
next
  assume "suffix t s"
  then obtain p where "s = p @ t" by (auto simp: suffix_def)
  then show "endsWith s t" by (simp add: endsWith_def)
qed

lemma slice_0_minus1_butlast: "slice_0_minus1 s = butlast s"
  by (simp add: slice_0_minus1_def butlast_conv_take)

lemma join_empty_concat: "join [] xs = concat xs"
  by (induction "[] :: string" xs rule: join.induct) simp_all

lemma split_str_not_Nil: "split_str sep s \<noteq> []"
  by (induction s) (auto split: list.splits)

lemma split_str_no_sep: "w \<in> set (split_str sep s) \<Longrightarrow> sep \<notin> set w"
  by (induction s arbitrary: w) (auto split: list.splits if_splits)

lemma split_str_segment: "sep \<notin> set w \<Longrightarrow> split_str sep w = [w]"
  by (induction w) auto

lemma split_str_append:
  "sep \<notin> set w \<Longrightarrow> split_str sep (w @ sep # rest) = w # split_str sep rest"
  by (induction w) (auto simp: split_str_not_Nil split: list.splits)

lemma split_str_join:
  "segs \<noteq> [] \<Longrightarrow> \<forall>w\<in>set segs. sep \<notin> set w \<Longrightarrow> split_str sep (join [sep] segs) = segs"
  by (induction "[sep]" segs rule: join.induct) (simp_all add: split_str_segment split_str_append)

lemma join_split_str: "join [sep] (split_str sep s) = s"
proof (induction s)
  case Nil
  then show ?case by simp
next
  case (Cons c cs)
  obtain w ws where ws: "split_str sep cs = w # ws"
    using split_str_not_Nil [of sep cs] by (cases "split_str sep cs") auto
  show ?case
  proof (cases "c = sep")
    case True
    with Cons ws show ?thesis by simp
  next
    case False
    with Cons ws show ?thesis by (cases ws) auto
  qed
qed

lemma toPascalCase_segments:
  "toPascalCase rt str
   = concat (map (\<lambda>w. toUpperCase rt (take 1 w) @ toLowerCase rt (drop 1 w))
       (split_str (CHR ''_'') str))"
  unfolding toPascalCase_def join_empty_concat charAt0_def slice_from1_def by (rule refl)

section \<open>Properties of the table extraction\<close>







lemma spans_sorted:
  "spansInOrder lo cs hi \<Longrightarrow>
     lo \<le> hi
     \<and> (\<forall>(a, m) \<in> set (concat (map (preorder anc) cs)). lo \<le> pos m \<and> pos m \<le> hi)
     \<and> sorted (map (\<lambda>(a, m). pos m) (concat (map (preorder anc) cs)))"
  and wellSpanned_sorted:
  "wellSpanned n \<Longrightarrow>
     pos n \<le> endPos n
     \<and> (\<forall>(a, m) \<in> set (preorder anc' n). pos n \<le> pos m \<and> pos m \<le> endPos n)
     \<and> sorted (map (\<lambda>(a, m). pos m) (preorder anc' n))"
proof (induction lo cs hi and n arbitrary: anc and anc' rule: spansInOrder_wellSpanned.induct)
  case (1 lo hi)
  then show ?case by simp
next
  case (2 lo c cs hi)
  from "2.prems" have lo: "lo \<le> pos c" and wc: "wellSpanned c" and rest: "spansInOrder (endPos c) cs hi"
    by simp_all
  from "2.IH"(1) [OF wc, of anc]
  have c1: "pos c \<le> endPos c"
    and c2: "\<forall>(a, m) \<in> set (preorder anc c). pos c \<le> pos m \<and> pos m \<le> endPos c"
    and c3: "sorted (map (\<lambda>(a, m). pos m) (preorder anc c))"
    by blast+
  from "2.IH"(2) [OF rest, of anc]
  have r1: "endPos c \<le> hi"
    and r2: "\<forall>(a, m) \<in> set (concat (map (preorder anc) cs)). endPos c \<le> pos m \<and> pos m \<le> hi"
    and r3: "sorted (map (\<lambda>(a, m). pos m) (concat (map (preorder anc) cs)))"
    by blast+
  have "lo \<le> hi" using lo c1 r1 by linarith
  moreover have "\<forall>(a, m) \<in> set (concat (map (preorder anc) (c # cs))). lo \<le> pos m \<and> pos m \<le> hi"
    using c2 r2 lo c1 r1 by fastforce
  moreover have "sorted (map (\<lambda>(a, m). pos m) (concat (map (preorder anc) (c # cs))))"
    using c2 c3 r2 r3 by (fastforce simp: sorted_append)
  ultimately show ?case by blast
next
  case (3 k p e cs)
  from "3.prems" have sp: "spansInOrder p cs e" by simp
  from "3.IH" [OF sp, of "Node k p e cs # anc'"]
  have s1: "p \<le> e"
    and s2: "\<forall>(a, m) \<in> set (concat (map (preorder (Node k p e cs # anc')) cs)). p \<le> pos m \<and> pos m \<le> e"
    and s3: "sorted (map (\<lambda>(a, m). pos m) (concat (map (preorder (Node k p e cs # anc')) cs)))"
    by blast+
  show ?case using s1 s2 s3 by fastforce
qed

lemma tableSignatures_sorted:
  "wellSpanned sourceFile \<Longrightarrow> sorted (map pos (tableSignatures sourceFile))"
proof -
  assume "wellSpanned sourceFile"
  then have "sorted (map (\<lambda>(a, m). pos m) (preorder [] sourceFile))"
    using wellSpanned_sorted by blast
  then have "sorted (map (\<lambda>(a, m). pos m)
      (filter (\<lambda>(ancestors, n). isTableSignature ancestors n) (preorder [] sourceFile)))"
    by (rule sorted_filter)
  then show ?thesis
    by (simp add: tableSignatures_def comp_def case_prod_unfold)
qed

section \<open>Properties of the placeholder substitution\<close>

lemma startsWith_append: "startsWith s pat = (\<exists>r. s = pat @ r)"
  by (induction s pat rule: startsWith.induct) auto

lemma occursAt_0: "occursAt pat str 0 = startsWith str pat"
  by (auto simp: occursAt_def startsWith_append)

lemma occursAt_Suc: "occursAt pat (c # cs) (Suc i) = occursAt pat cs i"
proof
  assume "occursAt pat (c # cs) (Suc i)"
  then obtain pre post where h: "c # cs = pre @ pat @ post" "length pre = Suc i"
    by (auto simp: occursAt_def)
  then obtain pre' where "pre = c # pre'" by (cases pre) auto
  with h show "occursAt pat cs i" by (auto simp: occursAt_def)
next
  assume "occursAt pat cs i"
  then obtain pre post where "cs = pre @ pat @ post" "length pre = i"
    by (auto simp: occursAt_def)
  then have "c # cs = (c # pre) @ pat @ post \<and> length (c # pre) = Suc i" by simp
  then show "occursAt pat (c # cs) (Suc i)" unfolding occursAt_def by blast
qed

lemma splitAtFirst_first:
  "splitAtFirst pat str = Some (pre, post) \<Longrightarrow> firstOccurrence pat str pre post"
proof (induction pat str arbitrary: pre rule: splitAtFirst.induct)
  case (1 pat)
  then show ?case by (auto simp: firstOccurrence_def split: if_splits)
next
  case (2 pat c cs)
  show ?case
  proof (cases "startsWith (c # cs) pat")
    case True
    with "2.prems" have "pre = []" "post = drop (length pat) (c # cs)" by auto
    moreover from True obtain r where "c # cs = pat @ r" by (auto simp: startsWith_append)
    ultimately show ?thesis by (simp add: firstOccurrence_def)
  next
    case False
    with "2.prems" obtain pre' where sp: "splitAtFirst pat cs = Some (pre', post)" and pre: "pre = c # pre'"
      by (auto split: option.splits)
    from "2.IH" [OF False sp] have fo: "firstOccurrence pat cs pre' post" .
    have "\<not> occursAt pat (c # cs) i" if "i < length pre" for i
    proof (cases i)
      case 0
      then show ?thesis using False by (simp add: occursAt_0)
    next
      case (Suc j)
      with that pre have "j < length pre'" by simp
      moreover from fo have "\<forall>i<length pre'. \<not> occursAt pat cs i"
        unfolding firstOccurrence_def by blast
      ultimately have "\<not> occursAt pat cs j" by blast
      then show ?thesis using Suc by (simp only: occursAt_Suc) simp
    qed
    with fo pre show ?thesis by (simp add: firstOccurrence_def)
  qed
qed

lemma first_splitAtFirst:
  "firstOccurrence pat str pre post \<Longrightarrow> splitAtFirst pat str = Some (pre, post)"
proof (induction pre arbitrary: str)
  case Nil
  then have str: "str = pat @ post" by (simp add: firstOccurrence_def)
  show ?case
  proof (cases str)
    case Nil
    with str show ?thesis by simp
  next
    case (Cons c cs)
    have sw: "startsWith (c # cs) pat" using str Cons by (auto simp: startsWith_append)
    have "drop (length pat) (pat @ post) = post" by simp
    with str Cons have dr: "drop (length pat) (c # cs) = post" by simp
    have "splitAtFirst pat (c # cs) = Some ([], drop (length pat) (c # cs))"
      using sw by simp
    with dr Cons show ?thesis by simp
  qed
next
  case (Cons c pre')
  then have str: "str = c # (pre' @ pat @ post)"
    and no: "\<forall>i<Suc (length pre'). \<not> occursAt pat str i"
    unfolding firstOccurrence_def by auto
  from no str have "\<not> startsWith (c # (pre' @ pat @ post)) pat"
    by (auto simp: occursAt_0 [symmetric])
  moreover have "\<not> occursAt pat (pre' @ pat @ post) i" if "i < length pre'" for i
  proof -
    from that no have "\<not> occursAt pat str (Suc i)" by simp
    then show ?thesis unfolding str occursAt_Suc .
  qed
  then have "firstOccurrence pat (pre' @ pat @ post) pre' post"
    unfolding firstOccurrence_def by blast
  then have "splitAtFirst pat (pre' @ pat @ post) = Some (pre', post)"
    by (rule Cons.IH)
  ultimately show ?case using str by simp
qed

lemma replace_first:
  "firstOccurrence pat str pre post \<Longrightarrow>
     replace str pat replacement = pre @ getSubstitution pat pre post replacement @ post"
  by (simp add: replace_def first_splitAtFirst)

lemma replace_absent:
  "\<forall>i. \<not> occursAt pat str i \<Longrightarrow> replace str pat replacement = str"
proof -
  assume no: "\<forall>i. \<not> occursAt pat str i"
  have "splitAtFirst pat str = None"
  proof (cases "splitAtFirst pat str")
    case None
    then show ?thesis .
  next
    case (Some pp)
    then obtain pre post where "splitAtFirst pat str = Some (pre, post)" by (cases pp) auto
    then have "firstOccurrence pat str pre post" by (rule splitAtFirst_first)
    then have "occursAt pat str (length pre)" by (auto simp: firstOccurrence_def occursAt_def)
    with no show ?thesis by blast
  qed
  then show ?thesis by (simp add: replace_def)
qed

lemma getSubstitution_no_dollar:
  "CHR ''$'' \<notin> set r \<Longrightarrow> getSubstitution matched pre post r = r"
  by (induction matched pre post r rule: getSubstitution.induct) auto


section \<open>Properties of the method blocks\<close>

lemma generateMethodsForTable_first:
  "\<exists>rest. generateMethodsForTable rt t = CHR 0x0A # rest"
  unfolding generateMethodsForTable_def methodBlock_def
  by (subst append_Cons) (rule exI, rule refl)



lemma methodBlock_no_dollar:
  assumes "CHR ''$'' \<notin> set t" "CHR ''$'' \<notin> set p" "CHR ''$'' \<notin> set s" "CHR ''$'' \<notin> set pl"
  shows "CHR ''$'' \<notin> set (methodBlock t p s pl)"
proof -
  have q: "CHR ''$'' \<notin> set (squote t)"
    using assms(1) by (simp add: squote_def)
  show ?thesis
    unfolding methodBlock_def set_append Un_iff de_Morgan_disj
    using q assms by (intro conjI) simp_all
qed

lemma generateMethodsForTable_no_dollar:
  assumes "CHR ''$'' \<notin> set t" and p: "CHR ''$'' \<notin> set (toPascalCase rt t)"
  shows "CHR ''$'' \<notin> set (generateMethodsForTable rt t)"
proof -
  have b: "CHR ''$'' \<notin> set (butlast (toPascalCase rt t))"
    using p by (meson in_set_butlastD)
  have "CHR ''$'' \<notin> set (singularPascalCase rt t)"
    using p b by (simp add: singularPascalCase_def specialCase_def pluralizationRule_def
        slice_0_minus1_butlast)
  moreover have "CHR ''$'' \<notin> set (pluralPascalCase rt t)"
    using p by (simp add: pluralPascalCase_def specialCase_def pluralizationRule_def)
  ultimately show ?thesis
    unfolding generateMethodsForTable_def using assms by (intro methodBlock_no_dollar)
qed



section \<open>Frame properties of the file-system steps\<close>

lemma consoleLog_frame [simp]:
  "files (consoleLog msg w) = files w" "dirs (consoleLog msg w) = dirs w"
  "denied (consoleLog msg w) = denied w"
  by (simp_all add: consoleLog_def)

lemma consoleError_frame [simp]:
  "files (consoleError msg err w) = files w" "dirs (consoleError msg err w) = dirs w"
  "denied (consoleError msg err w) = denied w"
  by (simp_all add: consoleError_def)

lemma existsSync_console [simp]:
  "existsSync p (consoleLog msg w) = existsSync p w"
  "existsSync p (consoleError msg err w) = existsSync p w"
  by (simp_all add: existsSync_def)

lemma readFileSync_cong:
  "files w' p = files w p \<Longrightarrow> (p \<in> dirs w') = (p \<in> dirs w) \<Longrightarrow> denied w' = denied w
     \<Longrightarrow> readFileSync p w' = readFileSync p w"
  by (simp add: readFileSync_def)

lemma readFileSync_Returned:
  "readFileSync p w = Returned c \<longleftrightarrow> p \<notin> dirs w \<and> (OpRead, p) \<notin> denied w \<and> files w p = Some c"
  by (auto simp: readFileSync_def split: option.splits)

lemma writeFileSync_Threw: "writeFileSync p c w = (Threw e, w') \<Longrightarrow> w' = w"
  by (auto simp: writeFileSync_def split: if_splits)

lemma writeFileSync_Returned:
  "writeFileSync p c w = (Returned u, w') \<longleftrightarrow>
     p \<notin> dirs w \<and> dirname p \<in> dirs w \<and> (OpWrite, p) \<notin> denied w
     \<and> w' = w\<lparr>files := (files w)(p \<mapsto> c)\<rparr>"
  by (auto simp: writeFileSync_def)

lemma writeFileSync_frame:
  "writeFileSync p c w = (r, w') \<Longrightarrow>
     dirs w' = dirs w \<and> denied w' = denied w \<and> (\<forall>q. q \<noteq> p \<longrightarrow> files w' q = files w q)"
  by (auto simp: writeFileSync_def split: if_splits)

lemma unlinkSync_frame:
  "unlinkSync p w = (r, w') \<Longrightarrow>
     dirs w' = dirs w \<and> denied w' = denied w \<and> (\<forall>q. q \<noteq> p \<longrightarrow> files w' q = files w q)"
  by (auto simp: unlinkSync_def split: if_splits)

lemma unlinkSync_Threw: "unlinkSync p w = (Threw e, w') \<Longrightarrow> w' = w"
  by (auto simp: unlinkSync_def split: if_splits)

lemma mkdirSync_frame:
  "mkdirSync_recursive p w = (r, w') \<Longrightarrow>
     files w' = files w \<and> denied w' = denied w \<and> dirs w \<subseteq> dirs w'
     \<and> (\<forall>q. files w q \<noteq> None \<longrightarrow> (q \<in> dirs w') = (q \<in> dirs w))"
  by (auto simp: mkdirSync_recursive_def split: if_splits)

lemma generateTemplateFile_exists:
  "existsSync (TEMPLATE_FILE_PATH a) w \<Longrightarrow> generateTemplateFile a w = (Returned (), w)"
  by (simp add: generateTemplateFile_def)

lemma generateTemplateFile_frame:
  "generateTemplateFile a w = (r, w') \<Longrightarrow>
     dirs w' = dirs w \<and> denied w' = denied w
     \<and> (\<forall>q. q \<noteq> TEMPLATE_FILE_PATH a \<longrightarrow> files w' q = files w q)"
  by (auto simp: generateTemplateFile_def dest!: writeFileSync_frame split: if_splits prod.splits result.splits)

lemma ensureOutputDir_frame:
  "ensureOutputDir a w = (r, w') \<Longrightarrow>
     files w' = files w \<and> denied w' = denied w \<and> dirs w \<subseteq> dirs w'
     \<and> (\<forall>q. files w q \<noteq> None \<longrightarrow> (q \<in> dirs w') = (q \<in> dirs w))"
  by (auto simp: ensureOutputDir_def Let_def dest!: mkdirSync_frame split: if_splits prod.splits result.splits)

lemma deleteExistingOutput_frame:
  "dirs (deleteExistingOutput a w) = dirs w \<and> denied (deleteExistingOutput a w) = denied w
   \<and> (\<forall>q. q \<noteq> OUTPUT_FILE_PATH a \<longrightarrow> files (deleteExistingOutput a w) q = files w q)"
  by (auto simp: deleteExistingOutput_def dest!: unlinkSync_frame split: prod.splits result.splits)

lemma writeOutput_frame:
  "writeOutput a pending w = (r, w') \<Longrightarrow>
     dirs w' = dirs w \<and> denied w' = denied w
     \<and> (\<forall>q. q \<noteq> OUTPUT_FILE_PATH a \<longrightarrow> files w' q = files w q)"
  by (auto simp: writeOutput_def dest!: writeFileSync_frame split: prod.splits result.splits)

subsection \<open>The run as a whole\<close>

lemma generateApiClass_Returned:
  "generateApiClass rt createSourceFile a w = (Returned (content, names), w') \<longleftrightarrow>
     (\<exists>w1 schema template w2.
        generateTemplateFile a w = (Returned (), w1)
        \<and> readFileSync (TYPE_FILE_PATH a) w1 = Returned schema
        \<and> readFileSync (TEMPLATE_FILE_PATH a) w1 = Returned template
        \<and> ensureOutputDir a w1 = (Returned (), w2)
        \<and> names = tableNamesOf (createSourceFile schema)
        \<and> content = replace template placeholder (tableMethods rt names)
        \<and> w' = deleteExistingOutput a w2)"
  by (auto simp: generateApiClass_def extractTableNames_def Let_def
      split: prod.splits result.splits)

lemma generateApiClass_frame:
  assumes "generateApiClass rt createSourceFile a w = (r, w')"
  shows "denied w' = denied w"
    and "q \<noteq> OUTPUT_FILE_PATH a \<Longrightarrow> q \<noteq> TEMPLATE_FILE_PATH a \<or> existsSync (TEMPLATE_FILE_PATH a) w
           \<Longrightarrow> files w' q = files w q"
proof -
  obtain r1 w1 where g: "generateTemplateFile a w = (r1, w1)"
    by (cases "generateTemplateFile a w")
  obtain r2 w2 where e: "ensureOutputDir a w1 = (r2, w2)"
    by (cases "ensureOutputDir a w1")
  have w': "w' = w1 \<or> w' = w2 \<or> w' = deleteExistingOutput a w2"
    using assms g e
    by (auto simp: generateApiClass_def Let_def split: prod.splits result.splits)
  have d1: "denied w1 = denied w" using generateTemplateFile_frame [OF g] by simp
  have d2: "denied w2 = denied w1" using ensureOutputDir_frame [OF e] by simp
  show "denied w' = denied w"
    using w' d1 d2 deleteExistingOutput_frame [of a w2] by auto
  assume q: "q \<noteq> OUTPUT_FILE_PATH a"
    and t: "q \<noteq> TEMPLATE_FILE_PATH a \<or> existsSync (TEMPLATE_FILE_PATH a) w"
  have f1: "files w1 q = files w q"
  proof (cases "existsSync (TEMPLATE_FILE_PATH a) w")
    case True
    with g show ?thesis by (simp add: generateTemplateFile_exists)
  next
    case False
    with t have "q \<noteq> TEMPLATE_FILE_PATH a" by simp
    with generateTemplateFile_frame [OF g] show ?thesis by simp
  qed
  have f2: "files w2 q = files w1 q" using ensureOutputDir_frame [OF e] by simp
  have f3: "files (deleteExistingOutput a w2) q = files w2 q"
    using q deleteExistingOutput_frame [of a w2] by simp
  show "files w' q = files w q"
    using w' f1 f2 f3 by auto
qed

lemma run_frame:
  assumes "q \<noteq> OUTPUT_FILE_PATH a"
    and "q \<noteq> TEMPLATE_FILE_PATH a \<or> existsSync (TEMPLATE_FILE_PATH a) w"
  shows "files (snd (run rt createSourceFile a w)) q = files w q"
proof (cases "typeFilePath a = [] \<or> outputFilePath a = []")
  case True
  then show ?thesis by (simp add: run_def)
next
  case False
  obtain r w' where g: "generateApiClass rt createSourceFile a w = (r, w')"
    by (cases "generateApiClass rt createSourceFile a w")
  have f: "files w' q = files w q"
    using generateApiClass_frame(2) [OF g] assms by blast
  show ?thesis
  proof (cases r)
    case (Threw e)
    with False g f show ?thesis by (simp add: run_def)
  next
    case (Returned pending)
    obtain r2 w'' where wo: "writeOutput a pending w' = (r2, w'')"
      by (cases "writeOutput a pending w'")
    have "files w'' q = files w' q"
      using writeOutput_frame [OF wo] assms(1) by simp
    with False g f Returned wo show ?thesis
      by (cases r2) (simp_all add: run_def)
  qed
qed

lemma writeOutput_Returned:
  "writeOutput a (content, names) w = (Returned u, w') \<longleftrightarrow>
     (\<exists>w4. writeFileSync (OUTPUT_FILE_PATH a) content w = (Returned (), w4)
        \<and> w' = consoleLog (''Tables: '' @ join '', '' names)
                  (consoleLog (''Successfully generated SupabaseApiGenerator with methods for ''
                               @ decimal (length names) @ '' tables!'') w4))"
proof (cases "writeFileSync (OUTPUT_FILE_PATH a) content w")
  case (Pair r w4)
  then show ?thesis by (cases r) (auto simp: writeOutput_def)
qed

lemma run_Completed:
  "run rt createSourceFile a w = (Completed, w') \<longleftrightarrow>
     typeFilePath a \<noteq> [] \<and> outputFilePath a \<noteq> [] \<and>
     (\<exists>content names w3.
        generateApiClass rt createSourceFile a w = (Returned (content, names), w3)
        \<and> writeOutput a (content, names) w3 = (Returned (), w'))"
proof (cases "typeFilePath a = [] \<or> outputFilePath a = []")
  case True
  then show ?thesis by (auto simp: run_def)
next
  case False
  obtain r w3 where g: "generateApiClass rt createSourceFile a w = (r, w3)"
    by (cases "generateApiClass rt createSourceFile a w")
  show ?thesis
  proof (cases r)
    case (Threw e)
    with False g show ?thesis by (simp add: run_def)
  next
    case (Returned pending)
    obtain content names where p: "pending = (content, names)" by (cases pending)
    obtain r2 w'' where wo: "writeOutput a (content, names) w3 = (r2, w'')"
      by (cases "writeOutput a (content, names) w3")
    show ?thesis
      using False g Returned p wo by (cases r2) (auto simp: run_def)
  qed
qed

lemma run_Completed_output:
  assumes "run rt createSourceFile a w = (Completed, w')"
  obtains w1 schema template where
    "generateTemplateFile a w = (Returned (), w1)"
    "readFileSync (TYPE_FILE_PATH a) w1 = Returned schema"
    "readFileSync (TEMPLATE_FILE_PATH a) w1 = Returned template"
    "files w' (OUTPUT_FILE_PATH a)
       = Some (replace template placeholder (tableMethods rt (tableNamesOf (createSourceFile schema))))"
proof -
  from assms obtain content names w3 where
    g: "generateApiClass rt createSourceFile a w = (Returned (content, names), w3)"
    and wo: "writeOutput a (content, names) w3 = (Returned (), w')"
    by (auto simp: run_Completed)
  from g obtain w1 schema template where
    s: "generateTemplateFile a w = (Returned (), w1)"
    "readFileSync (TYPE_FILE_PATH a) w1 = Returned schema"
    "readFileSync (TEMPLATE_FILE_PATH a) w1 = Returned template"
    and c: "content = replace template placeholder (tableMethods rt (tableNamesOf (createSourceFile schema)))"
    by (auto simp: generateApiClass_Returned)
  from wo have "files w' (OUTPUT_FILE_PATH a) = Some content"
    by (auto simp: writeOutput_Returned writeFileSync_Returned)
  with s c that show thesis by blast
qed


lemma second_run:
  assumes first: "run rt createSourceFile a w = (Completed, w1)"
    and ty: "OUTPUT_FILE_PATH a \<noteq> TYPE_FILE_PATH a"
    and te: "OUTPUT_FILE_PATH a \<noteq> TEMPLATE_FILE_PATH a"
  shows "\<exists>w2. run rt createSourceFile a w1 = (Completed, w2) \<and> files w2 = files w1"
proof -
  let ?out = "OUTPUT_FILE_PATH a"
  from first have args: "typeFilePath a \<noteq> []" "outputFilePath a \<noteq> []"
    by (simp_all add: run_Completed)
  from first obtain content names u3 where
    g: "generateApiClass rt createSourceFile a w = (Returned (content, names), u3)"
    and wo: "writeOutput a (content, names) u3 = (Returned (), w1)"
    by (auto simp: run_Completed)
  from g obtain u1 schema template u2 where
    gt: "generateTemplateFile a w = (Returned (), u1)"
    and rs: "readFileSync (TYPE_FILE_PATH a) u1 = Returned schema"
    and rt: "readFileSync (TEMPLATE_FILE_PATH a) u1 = Returned template"
    and eo: "ensureOutputDir a u1 = (Returned (), u2)"
    and names: "names = tableNamesOf (createSourceFile schema)"
    and content: "content = replace template placeholder (tableMethods rt names)"
    and u3: "u3 = deleteExistingOutput a u2"
    by (auto simp: generateApiClass_Returned)
  from wo obtain u4 where
    wr: "writeFileSync ?out content u3 = (Returned (), u4)"
    and w1: "w1 = consoleLog (''Tables: '' @ join '', '' names)
                  (consoleLog (''Successfully generated SupabaseApiGenerator with methods for ''
                               @ decimal (length names) @ '' tables!'') u4)"
    by (auto simp: writeOutput_Returned)
  from wr have wr': "?out \<notin> dirs u3" "dirname ?out \<in> dirs u3" "(OpWrite, ?out) \<notin> denied u3"
    and u4: "u4 = u3\<lparr>files := (files u3)(?out \<mapsto> content)\<rparr>"
    by (simp_all add: writeFileSync_Returned)
  have files_w1: "files w1 = (files u3)(?out \<mapsto> content)"
    and dirs_w1: "dirs w1 = dirs u3" and denied_w1: "denied w1 = denied u3"
    using w1 u4 by simp_all
  have u3_frame: "dirs u3 = dirs u2" "denied u3 = denied u2"
    "\<And>q. q \<noteq> ?out \<Longrightarrow> files u3 q = files u2 q"
    using deleteExistingOutput_frame [of a u2] u3 by simp_all
  have u2_frame: "files u2 = files u1" "denied u2 = denied u1"
    "\<And>q. files u1 q \<noteq> None \<Longrightarrow> (q \<in> dirs u2) = (q \<in> dirs u1)"
    using ensureOutputDir_frame [OF eo] by simp_all
  from rs have s1: "TYPE_FILE_PATH a \<notin> dirs u1" "(OpRead, TYPE_FILE_PATH a) \<notin> denied u1"
    "files u1 (TYPE_FILE_PATH a) = Some schema"
    by (simp_all add: readFileSync_Returned)
  from rt have t1: "TEMPLATE_FILE_PATH a \<notin> dirs u1" "(OpRead, TEMPLATE_FILE_PATH a) \<notin> denied u1"
    "files u1 (TEMPLATE_FILE_PATH a) = Some template"
    by (simp_all add: readFileSync_Returned)
  have rs': "readFileSync (TYPE_FILE_PATH a) w1 = Returned schema"
    using s1 ty u2_frame u3_frame files_w1 dirs_w1 denied_w1
    by (simp add: readFileSync_Returned)
  have rt': "readFileSync (TEMPLATE_FILE_PATH a) w1 = Returned template"
    using t1 te u2_frame u3_frame files_w1 dirs_w1 denied_w1
    by (simp add: readFileSync_Returned)
  have "existsSync (TEMPLATE_FILE_PATH a) w1"
    using rt' by (simp add: existsSync_def readFileSync_Returned)
  then have gt': "generateTemplateFile a w1 = (Returned (), w1)"
    by (rule generateTemplateFile_exists)
  have eo': "ensureOutputDir a w1 = (Returned (), w1)"
    using wr'(2) dirs_w1 by (simp add: ensureOutputDir_def existsSync_def)
  let ?v3 = "deleteExistingOutput a w1"
  have v3_frame: "dirs ?v3 = dirs w1" "denied ?v3 = denied w1"
    "\<And>q. q \<noteq> ?out \<Longrightarrow> files ?v3 q = files w1 q"
    using deleteExistingOutput_frame [of a w1] by simp_all
  have g': "generateApiClass rt createSourceFile a w1 = (Returned (content, names), ?v3)"
    using gt' rs' rt' eo' names content by (auto simp: generateApiClass_Returned)
  let ?v4 = "?v3\<lparr>files := (files ?v3)(?out \<mapsto> content)\<rparr>"
  have wr2: "writeFileSync ?out content ?v3 = (Returned (), ?v4)"
    using wr' v3_frame dirs_w1 denied_w1 by (simp add: writeFileSync_Returned)
  let ?w2 = "consoleLog (''Tables: '' @ join '', '' names)
                  (consoleLog (''Successfully generated SupabaseApiGenerator with methods for ''
                               @ decimal (length names) @ '' tables!'') ?v4)"
  have "writeOutput a (content, names) ?v3 = (Returned (), ?w2)"
    using wr2 by (auto simp: writeOutput_Returned)
  with g' args have "run rt createSourceFile a w1 = (Completed, ?w2)"
    by (auto simp: run_Completed)
  moreover have "files ?w2 = files w1"
  proof
    fix q
    show "files ?w2 q = files w1 q"
      using v3_frame(3) [of q] files_w1 by (cases "q = ?out") simp_all
  qed
  ultimately show ?thesis by blast
qed

section \<open>Properties of the update loop\<close>

lemma updateLoop_stops:
  fixes client :: "('d, 'i, 'r, 'e) client"
  assumes "\<forall>j<length earlier.
             error (client (sent s @ map (updateRequest tableName idField) (take j earlier))
                      (updateRequest tableName idField (earlier ! j))) = None"
    and "error (client (sent s @ map (updateRequest tableName idField) earlier)
                  (updateRequest tableName idField failing)) = Some e"
  shows "updateLoop client tableName idField (earlier @ failing # rest) updatedRecords s
         = (Inl e, s\<lparr>sent := sent s @ map (updateRequest tableName idField) earlier
                                @ [updateRequest tableName idField failing]\<rparr>)"
  using assms
proof (induction earlier arbitrary: s updatedRecords)
  case Nil
  then show ?case by (simp add: sendUpdate_def)
next
  case (Cons u earlier)
  let ?rq = "updateRequest tableName idField"
  let ?s' = "s\<lparr>sent := sent s @ [?rq u]\<rparr>"
  from Cons.prems(1) have first: "error (client (sent s) (?rq u)) = None"
    by force
  have later: "\<forall>j<length earlier.
      error (client (sent ?s' @ map ?rq (take j earlier)) (?rq (earlier ! j))) = None"
  proof (intro allI impI)
    fix j
    assume "j < length earlier"
    then have "Suc j < length (u # earlier)" by simp
    with Cons.prems(1) have
      "error (client (sent s @ map ?rq (take (Suc j) (u # earlier))) (?rq ((u # earlier) ! Suc j))) = None"
      by blast
    then show "error (client (sent ?s' @ map ?rq (take j earlier)) (?rq (earlier ! j))) = None"
      by simp
  qed
  have fails: "error (client (sent ?s' @ map ?rq earlier) (?rq failing)) = Some e"
    using Cons.prems(2) by simp
  from Cons.IH [OF later fails]
  have "updateLoop client tableName idField (earlier @ failing # rest)
          (updatedRecords @ [data (client (sent s) (?rq u))]) ?s'
        = (Inl e, ?s'\<lparr>sent := sent ?s' @ map ?rq earlier @ [?rq failing]\<rparr>)" .
  with first show ?case by (simp add: sendUpdate_def)
qed

section \<open>Evaluation of the examples\<close>

lemma examplePaths:
  "TYPE_FILE_PATH exampleInvocation = ''/w/db.ts''"
  "OUTPUT_FILE_PATH exampleInvocation = ''/w/src/api.ts''"
  "TEMPLATE_FILE_PATH exampleInvocation = ''/w/src/SupabaseApi.ts''"
  "dirname ''/w/src/api.ts'' = ''/w/src''"
  by code_simp+

lemma collidingPaths:
  "TYPE_FILE_PATH collidingInvocation = ''/w/db.ts''"
  "OUTPUT_FILE_PATH collidingInvocation = ''/w/src/SupabaseApi.ts''"
  "TEMPLATE_FILE_PATH collidingInvocation = ''/w/src/SupabaseApi.ts''"
  "dirname ''/w/src/SupabaseApi.ts'' = ''/w/src''"
  by code_simp+

lemma exampleArguments:
  "typeFilePath exampleInvocation \<noteq> []" "outputFilePath exampleInvocation \<noteq> []"
  "typeFilePath collidingInvocation \<noteq> []" "outputFilePath collidingInvocation \<noteq> []"
  by (simp_all add: exampleInvocation_def collidingInvocation_def)

lemma exampleNames: "tableNamesOf exampleSourceFile = [''post'', ''user_type'']"
  by code_simp

lemma smallTemplate_split:
  "firstOccurrence placeholder smallTemplate ''class Api {\<newline>  '' ''\<newline>}''"
proof -
  have "splitAtFirst placeholder smallTemplate = Some (''class Api {\<newline>  '', ''\<newline>}'')"
    by code_simp
  then show ?thesis by (rule splitAtFirst_first)
qed

lemma exampleParser_schema:
  "exampleParser exampleSchema = exampleSourceFile"
  "exampleParser dollarSchema = dollarSourceFile"
  by (simp_all add: exampleParser_def exampleSchema_def dollarSchema_def)

lemmas fsSteps =
  generateTemplateFile_def extractTableNames_def ensureOutputDir_def deleteExistingOutput_def
  existsSync_def readFileSync_def writeFileSync_def unlinkSync_def consoleLog_def
  consoleError_def exampleParser_schema Let_def

lemma exampleSteps:
  "generateTemplateFile exampleInvocation exampleWorld = (Returned (), exampleWorld)"
  "readFileSync (TYPE_FILE_PATH exampleInvocation) exampleWorld = Returned exampleSchema"
  "extractTableNames exampleParser exampleInvocation exampleWorld = Returned [''post'', ''user_type'']"
  "readFileSync (TEMPLATE_FILE_PATH exampleInvocation) exampleWorld = Returned smallTemplate"
  "ensureOutputDir exampleInvocation exampleWorld = (Returned (), exampleWorld)"
  "deleteExistingOutput exampleInvocation exampleWorld = exampleWorld"
  by (simp_all add: fsSteps examplePaths exampleNames exampleWorld_def)

lemma example_generateApiClass:
  "generateApiClass asciiRuntime exampleParser exampleInvocation exampleWorld
     = (Returned (exampleOutput, [''post'', ''user_type'']), exampleWorld)"
  by (simp add: generateApiClass_def exampleSteps exampleOutput_def)

lemma example_run: "run asciiRuntime exampleParser exampleInvocation exampleWorld = (Completed, generatedWorld)"
proof -
  let ?written = "exampleWorld\<lparr>files := (files exampleWorld)(''/w/src/api.ts'' \<mapsto> exampleOutput)\<rparr>"
  let ?reported = "consoleLog (''Tables: '' @ join '', '' [''post'', ''user_type''])
      (consoleLog (''Successfully generated SupabaseApiGenerator with methods for ''
                   @ decimal (length [''post'', ''user_type'']) @ '' tables!'') ?written)"
  have "writeFileSync (OUTPUT_FILE_PATH exampleInvocation) exampleOutput exampleWorld
      = (Returned (), ?written)"
    by (simp add: writeFileSync_def examplePaths exampleWorld_def)
  then have "writeOutput exampleInvocation (exampleOutput, [''post'', ''user_type'']) exampleWorld
      = (Returned (), ?reported)"
    by (simp only: writeOutput_Returned) blast
  then have "run asciiRuntime exampleParser exampleInvocation exampleWorld = (Completed, ?reported)"
    using exampleArguments example_generateApiClass by (simp only: run_Completed) blast
  moreover have "?reported = generatedWorld"
    by (simp add: consoleLog_def generatedWorld_def exampleReport_def exampleWorld_def)
  ultimately show ?thesis by simp
qed

lemma generatedSteps:
  "generateTemplateFile exampleInvocation generatedWorld = (Returned (), generatedWorld)"
  "readFileSync (TYPE_FILE_PATH exampleInvocation) generatedWorld = Returned exampleSchema"
  "readFileSync (TEMPLATE_FILE_PATH exampleInvocation) generatedWorld = Returned smallTemplate"
  by (simp_all add: fsSteps examplePaths generatedWorld_def exampleWorld_def)

lemma colliding_run:
  "fst (run asciiRuntime exampleParser collidingInvocation exampleWorld) = Completed"
  "files (snd (run asciiRuntime exampleParser collidingInvocation exampleWorld)) ''/w/src/SupabaseApi.ts''
     = Some exampleOutput"
proof -
  have steps:
    "generateTemplateFile collidingInvocation exampleWorld = (Returned (), exampleWorld)"
    "extractTableNames exampleParser collidingInvocation exampleWorld = Returned [''post'', ''user_type'']"
    "readFileSync (TEMPLATE_FILE_PATH collidingInvocation) exampleWorld = Returned smallTemplate"
    "ensureOutputDir collidingInvocation exampleWorld = (Returned (), exampleWorld)"
    by (simp_all add: fsSteps collidingPaths exampleNames exampleWorld_def)
  let ?deleted = "consoleLog ''Successfully deleted existing file at /w/src/SupabaseApi.ts''
      (exampleWorld\<lparr>files := (files exampleWorld)(''/w/src/SupabaseApi.ts'' := None)\<rparr>)"
  have del: "deleteExistingOutput collidingInvocation exampleWorld = ?deleted"
    by (simp add: fsSteps collidingPaths exampleWorld_def)
  have g: "generateApiClass asciiRuntime exampleParser collidingInvocation exampleWorld
     = (Returned (exampleOutput, [''post'', ''user_type'']), ?deleted)"
    by (simp add: generateApiClass_def steps del exampleOutput_def)
  have wr: "writeFileSync (OUTPUT_FILE_PATH collidingInvocation) exampleOutput ?deleted
      = (Returned (), ?deleted\<lparr>files := (files ?deleted)(''/w/src/SupabaseApi.ts'' \<mapsto> exampleOutput)\<rparr>)"
    by (simp add: writeFileSync_def collidingPaths exampleWorld_def consoleLog_def)
  show "fst (run asciiRuntime exampleParser collidingInvocation exampleWorld) = Completed"
    by (simp add: run_def exampleArguments g wr writeOutput_def)
  show "files (snd (run asciiRuntime exampleParser collidingInvocation exampleWorld)) ''/w/src/SupabaseApi.ts''
     = Some exampleOutput"
    by (simp add: run_def exampleArguments g wr writeOutput_def)
qed

lemma examplePascal:
  "toPascalCase asciiRuntime ''post'' = ''Post''"
  "toPascalCase asciiRuntime ''user_type'' = ''UserType''"
  by code_simp+

lemma exampleBlocks_plain:
  "CHR ''$'' \<notin> set (generateMethodsForTable asciiRuntime ''post'')"
  "CHR ''$'' \<notin> set (generateMethodsForTable asciiRuntime ''user_type'')"
  by (rule generateMethodsForTable_no_dollar; simp add: examplePascal)+

lemma exampleOutput_blocks:
  "exampleOutput = ''class Api {\<newline>  '' @ generateMethodsForTable asciiRuntime ''post'' @ ''\<newline>''
     @ generateMethodsForTable asciiRuntime ''user_type'' @ ''\<newline>}''"
proof -
  have "CHR ''$'' \<notin> set (tableMethods asciiRuntime [''post'', ''user_type''])"
    using exampleBlocks_plain by (simp add: tableMethods_def)
  then show ?thesis
    using replace_first [OF smallTemplate_split, of "tableMethods asciiRuntime [''post'', ''user_type'']"]
    by (simp add: exampleOutput_def getSubstitution_no_dollar tableMethods_def)
qed

lemma exampleOutput_differs: "exampleOutput \<noteq> smallTemplate"
proof
  assume "exampleOutput = smallTemplate"
  then have "''class Api {\<newline>  '' @ generateMethodsForTable asciiRuntime ''post'' @ ''\<newline>''
     @ generateMethodsForTable asciiRuntime ''user_type'' @ ''\<newline>}'' = ''class Api {\<newline>  '' @ ''// [TABLE_METHODS]\<newline>}''"
    by (simp add: exampleOutput_blocks smallTemplate_def)
  then have "generateMethodsForTable asciiRuntime ''post'' @ ''\<newline>''
     @ generateMethodsForTable asciiRuntime ''user_type'' @ ''\<newline>}'' = ''// [TABLE_METHODS]\<newline>}''"
    by (simp only: same_append_eq)
  moreover obtain rest where "generateMethodsForTable asciiRuntime ''post'' = CHR 0x0A # rest"
    using generateMethodsForTable_first by blast
  ultimately show False by simp
qed

lemma dollarNames: "tableNamesOf dollarSourceFile = [''a$'']"
  by code_simp

lemma dollarBlock:
  "getSubstitution placeholder ''class Api {\<newline>  '' ''\<newline>}'' (generateMethodsForTable asciiRuntime ''a$'')
     \<noteq> generateMethodsForTable asciiRuntime ''a$''"
  by code_simp

subsection \<open>A run for the table \<open>a$\<close> and a run with the template without placeholder\<close>









subsection \<open>The ASCII runtime\<close>

lemma asciiUpperCase_char_not_underscore:
  "c \<noteq> CHR ''_'' \<Longrightarrow> asciiUpperCase_char c \<noteq> CHR ''_''"
proof
  assume ne: "c \<noteq> CHR ''_''" and eq: "asciiUpperCase_char c = CHR ''_''"
  let ?n = "of_char c :: nat"
  have in_range: "97 \<le> ?n \<and> ?n \<le> 122"
    using ne eq by (auto simp: asciiUpperCase_char_def Let_def split: if_splits)
  then have "(of_char (asciiUpperCase_char c) :: nat) = ?n - 32"
    by (simp add: asciiUpperCase_char_def Let_def less_imp_diff_less)
  with eq have "?n - 32 = 95" by simp
  with in_range show False by arith
qed

lemma asciiLowerCase_char_not_underscore:
  "c \<noteq> CHR ''_'' \<Longrightarrow> asciiLowerCase_char c \<noteq> CHR ''_''"
proof
  assume ne: "c \<noteq> CHR ''_''" and eq: "asciiLowerCase_char c = CHR ''_''"
  let ?n = "of_char c :: nat"
  have in_range: "65 \<le> ?n \<and> ?n \<le> 90"
    using ne eq by (auto simp: asciiLowerCase_char_def Let_def split: if_splits)
  then have "(of_char (asciiLowerCase_char c) :: nat) = ?n + 32"
    by (simp add: asciiLowerCase_char_def Let_def)
  with eq in_range show False by simp
qed

lemma asciiRuntime_conversions:
  "toUpperCase asciiRuntime = map asciiUpperCase_char"
  "toLowerCase asciiRuntime = map asciiLowerCase_char"
  by (simp_all add: asciiRuntime_def)

lemma asciiRuntime_underscore:
  "CHR ''_'' \<notin> set s \<Longrightarrow>
     CHR ''_'' \<notin> set (toUpperCase asciiRuntime s) \<and> CHR ''_'' \<notin> set (toLowerCase asciiRuntime s)"
  unfolding asciiRuntime_conversions
proof (induction s)
  case Nil
  show ?case by simp
next
  case (Cons c cs)
  from Cons.prems have c: "c \<noteq> CHR ''_''" and cs: "CHR ''_'' \<notin> set cs"
    by auto
  note u = asciiUpperCase_char_not_underscore [OF c] and l = asciiLowerCase_char_not_underscore [OF c]
  from Cons.IH [OF cs] u l show ?case
    by (simp del: char.inject)
qed

section \<open>Claims about the identifier derivation\<close>

text \<open>
  Claim C1. For every raw table identifier other than \<open>user_type\<close> (the only entry of
  the override table): if its PascalCase form ends in \<open>s\<close> but not in \<open>ss\<close>, \<open>us\<close> or
  \<open>is\<close>, the singular form is the PascalCase form without its trailing \<open>s\<close> and the
  plural form is the PascalCase form; otherwise the singular form is the PascalCase
  form and the plural form is the PascalCase form followed by \<open>s\<close>.
\<close>

theorem C1_general_pluralization:
  assumes "tableName \<noteq> ''user_type''"
  shows "if suffix ''s'' (toPascalCase rt tableName) \<and> \<not> suffix ''ss'' (toPascalCase rt tableName)
            \<and> \<not> suffix ''us'' (toPascalCase rt tableName) \<and> \<not> suffix ''is'' (toPascalCase rt tableName)
         then singularPascalCase rt tableName @ ''s'' = toPascalCase rt tableName
              \<and> pluralPascalCase rt tableName = toPascalCase rt tableName
         else singularPascalCase rt tableName = toPascalCase rt tableName
              \<and> pluralPascalCase rt tableName = toPascalCase rt tableName @ ''s''"
proof -
  let ?p = "toPascalCase rt tableName"
  have forms: "singularPascalCase rt tableName = fst (pluralizationRule ?p)"
    "pluralPascalCase rt tableName = snd (pluralizationRule ?p)"
    using assms by (simp_all add: singularPascalCase_def pluralPascalCase_def specialCase_def)
  have trailing: "butlast ?p @ ''s'' = ?p" if "suffix ''s'' ?p"
    using that by (auto simp: suffix_def)
  show ?thesis
    using trailing
    by (simp add: forms pluralizationRule_def endsWith_suffix slice_0_minus1_butlast)
qed

text \<open>
  The theorem at \<open>posts\<close> (first branch) and at \<open>status\<close> (second branch, by the
  \<open>us\<close> exception).
\<close>

theorem C1_general_pluralization_witness:
  "''posts'' \<noteq> ''user_type'' \<and> ''status'' \<noteq> ''user_type''
   \<and> toPascalCase asciiRuntime ''posts'' = ''Posts''
   \<and> singularPascalCase asciiRuntime ''posts'' = ''Post'' \<and> pluralPascalCase asciiRuntime ''posts'' = ''Posts''
   \<and> toPascalCase asciiRuntime ''status'' = ''Status''
   \<and> singularPascalCase asciiRuntime ''status'' = ''Status'' \<and> pluralPascalCase asciiRuntime ''status'' = ''Statuss''"
proof -
  have p: "toPascalCase asciiRuntime ''posts'' = ''Posts''" and q: "toPascalCase asciiRuntime ''status'' = ''Status''"
    by code_simp+
  have a: "''posts'' \<noteq> ''user_type''" and b: "''status'' \<noteq> ''user_type''"
    by simp_all
  show ?thesis
    using C1_general_pluralization [OF a, of asciiRuntime] C1_general_pluralization [OF b, of asciiRuntime]
    by (simp add: p q suffix_to_prefix)
qed

text \<open>
  Claim C2. The raw identifier \<open>user_type\<close> has an override entry, and the override's
  forms are the ones in the generated method names whatever the general rule
  produced: for every pair of forms left by the \<open>if\<close>/\<open>else\<close>, and for every behaviour of
  the case conversions behind the PascalCase form, the text generated for \<open>user_type\<close> is
  the comment line with the PascalCase form followed by the seven methods
  \<open>getUserTypes\<close>, \<open>getUserType\<close>, \<open>createUserType\<close>, \<open>createManyUserTypes\<close>,
  \<open>updateUserType\<close>, \<open>updateManyUserTypes\<close> and \<open>deleteUserType\<close>, written out below.
\<close>

theorem C2_user_type_override:
  "methodsAfterRule ''user_type'' pascalCaseName forms =
     ''\<newline>  // '' @ pascalCaseName
     @ ''\<newline>  getUserTypes = (options?: { select?: string, idField?: string, limit?: number, page?: number, filters?: Record<string, any> }) => this.getAll('user_type', options);''
     @ ''\<newline>  getUserType = (id: string, options?: { select?: string, idField?: string }) => this.getById('user_type', id, options);''
     @ ''\<newline>  createUserType = (data: Database['public']['Tables']['user_type']['Insert']) => this.create('user_type', data);''
     @ ''\<newline>  createManyUserTypes = (data: Database['public']['Tables']['user_type']['Insert'][]) => this.createMany('user_type', data);''
     @ ''\<newline>  updateUserType = (id: string, data: Database['public']['Tables']['user_type']['Update'], options?: { idField?: string }) => this.update('user_type', id, data, options);''
     @ ''\<newline>  updateManyUserTypes = (updates: Array<{ id: string, data: Database['public']['Tables']['user_type']['Update'] }>, options?: { idField?: string }) => this.updateMany('user_type', updates, options);''
     @ ''\<newline>  deleteUserType = (id: string, options?: { idField?: string }) => this.delete('user_type', id, options);''
   \<and> generateMethodsForTable rt ''user_type'' =
     ''\<newline>  // '' @ toPascalCase rt ''user_type''
     @ ''\<newline>  getUserTypes = (options?: { select?: string, idField?: string, limit?: number, page?: number, filters?: Record<string, any> }) => this.getAll('user_type', options);''
     @ ''\<newline>  getUserType = (id: string, options?: { select?: string, idField?: string }) => this.getById('user_type', id, options);''
     @ ''\<newline>  createUserType = (data: Database['public']['Tables']['user_type']['Insert']) => this.create('user_type', data);''
     @ ''\<newline>  createManyUserTypes = (data: Database['public']['Tables']['user_type']['Insert'][]) => this.createMany('user_type', data);''
     @ ''\<newline>  updateUserType = (id: string, data: Database['public']['Tables']['user_type']['Update'], options?: { idField?: string }) => this.update('user_type', id, data, options);''
     @ ''\<newline>  updateManyUserTypes = (updates: Array<{ id: string, data: Database['public']['Tables']['user_type']['Update'] }>, options?: { idField?: string }) => this.updateMany('user_type', updates, options);''
     @ ''\<newline>  deleteUserType = (id: string, options?: { idField?: string }) => this.delete('user_type', id, options);''"
  unfolding generateMethodsForTable_def methodsAfterRule_def singularPascalCase_def
    pluralPascalCase_def specialCase_def methodBlock_def squote_def
  by simp

text \<open>
  Claim C7. For every raw table identifier: the identifier is the underscore-join of
  a non-empty list of underscore-free segments; for every such list of segments the
  PascalCase form is the concatenation, in order, of the segments, each given as the
  runtime's upper case of its first character followed by the runtime's lower case
  of its remaining characters; and the PascalCase form contains no underscore,
  provided the runtime's two conversions never yield an underscore from a string
  without one (no case mapping of ECMAScript has \<open>_\<close> as its result). The conversions
  are those of the runtime, whatever they do to letters outside ASCII and to the
  length of a string.
\<close>

theorem C7_pascal_case_segments:
  "(\<exists>segs. segs \<noteq> [] \<and> (\<forall>w\<in>set segs. CHR ''_'' \<notin> set w) \<and> join ''_'' segs = r)
   \<and> (\<forall>segs. segs \<noteq> [] \<and> (\<forall>w\<in>set segs. CHR ''_'' \<notin> set w) \<and> join ''_'' segs = r
        \<longrightarrow> toPascalCase rt r
            = concat (map (\<lambda>w. toUpperCase rt (take 1 w) @ toLowerCase rt (drop 1 w)) segs))
   \<and> ((\<forall>s. CHR ''_'' \<notin> set s
          \<longrightarrow> CHR ''_'' \<notin> set (toUpperCase rt s) \<and> CHR ''_'' \<notin> set (toLowerCase rt s))
        \<longrightarrow> CHR ''_'' \<notin> set (toPascalCase rt r))"
proof (intro conjI allI impI)
  show "\<exists>segs. segs \<noteq> [] \<and> (\<forall>w\<in>set segs. CHR ''_'' \<notin> set w) \<and> join ''_'' segs = r"
    using split_str_not_Nil [of "CHR ''_''" r] split_str_no_sep [of _ "CHR ''_''" r]
      join_split_str [of "CHR ''_''" r]
    by blast
next
  fix segs
  assume "segs \<noteq> [] \<and> (\<forall>w\<in>set segs. CHR ''_'' \<notin> set w) \<and> join ''_'' segs = r"
  then have "split_str (CHR ''_'') r = segs"
    using split_str_join [of segs "CHR ''_''"] by auto
  then show "toPascalCase rt r
      = concat (map (\<lambda>w. toUpperCase rt (take 1 w) @ toLowerCase rt (drop 1 w)) segs)"
    by (simp only: toPascalCase_segments)
next
  assume plain: "\<forall>s. CHR ''_'' \<notin> set s
      \<longrightarrow> CHR ''_'' \<notin> set (toUpperCase rt s) \<and> CHR ''_'' \<notin> set (toLowerCase rt s)"
  have "CHR ''_'' \<notin> set (toUpperCase rt (take 1 w) @ toLowerCase rt (drop 1 w))"
    if "w \<in> set (split_str (CHR ''_'') r)" for w
  proof -
    have "CHR ''_'' \<notin> set w"
      using that by (rule split_str_no_sep)
    then have "CHR ''_'' \<notin> set (take 1 w)" "CHR ''_'' \<notin> set (drop 1 w)"
      by (auto dest: in_set_takeD in_set_dropD)
    with plain show ?thesis
      by simp
  qed
  then show "CHR ''_'' \<notin> set (toPascalCase rt r)"
    unfolding toPascalCase_segments by (simp del: char.inject)
qed

text \<open>
  The theorem at \<open>USER_tYPE\<close> with the segments \<open>USER\<close> and \<open>tYPE\<close>, under the ASCII
  conversions: the first letters are kept or raised, every other letter is lowered.
\<close>

theorem C7_pascal_case_segments_witness:
  "[''USER'', ''tYPE''] \<noteq> [] \<and> CHR ''_'' \<notin> set ''USER'' \<and> CHR ''_'' \<notin> set ''tYPE''
   \<and> join ''_'' [''USER'', ''tYPE''] = ''USER_tYPE''
   \<and> toPascalCase asciiRuntime ''USER_tYPE'' = ''UserType''
   \<and> CHR ''_'' \<notin> set (toPascalCase asciiRuntime ''USER_tYPE'')"
proof -
  note inst = C7_pascal_case_segments [of "''USER_tYPE''" asciiRuntime]
  have cap: "concat (map (\<lambda>w. toUpperCase asciiRuntime (take 1 w) @ toLowerCase asciiRuntime (drop 1 w))
      [''USER'', ''tYPE'']) = ''UserType''"
    by code_simp
  have segs: "[''USER'', ''tYPE''] \<noteq> [] \<and> (\<forall>w\<in>set [''USER'', ''tYPE'']. CHR ''_'' \<notin> set w)
      \<and> join ''_'' [''USER'', ''tYPE''] = ''USER_tYPE''"
    by simp
  have plain: "\<forall>s. CHR ''_'' \<notin> set s
      \<longrightarrow> CHR ''_'' \<notin> set (toUpperCase asciiRuntime s) \<and> CHR ''_'' \<notin> set (toLowerCase asciiRuntime s)"
    using asciiRuntime_underscore by (intro allI impI)
  have no_underscore: "CHR ''_'' \<notin> set (toPascalCase asciiRuntime ''USER_tYPE'')"
    using inst [THEN conjunct2, THEN conjunct2] plain by (rule mp)
  have "toPascalCase asciiRuntime ''USER_tYPE''
      = concat (map (\<lambda>w. toUpperCase asciiRuntime (take 1 w) @ toLowerCase asciiRuntime (drop 1 w))
          [''USER'', ''tYPE''])"
    using inst [THEN conjunct2, THEN conjunct1, THEN spec, of "[''USER'', ''tYPE'']"] segs
    by (rule mp)
  then have "toPascalCase asciiRuntime ''USER_tYPE'' = ''UserType''"
    by (simp only: cap)
  with no_underscore segs show ?thesis
    by (simp del: char.inject)
qed

section \<open>Claims about the files of a run\<close>

text \<open>
  Claim C3, as stated: every run that starts with a template file at the template path
  leaves that file's content unchanged. The template path is the output directory
  joined with \<open>SupabaseApi.ts\<close>, so an output path with that file name is the template
  path. In the example the template \<open>/w/src/SupabaseApi.ts\<close> exists, the output path is
  the same file, and the run completes with the generated output in it.
\<close>

theorem C3_output_path_is_template_path:
  "files exampleWorld (TEMPLATE_FILE_PATH collidingInvocation) = Some smallTemplate
   \<and> OUTPUT_FILE_PATH collidingInvocation = TEMPLATE_FILE_PATH collidingInvocation
   \<and> fst (run asciiRuntime exampleParser collidingInvocation exampleWorld) = Completed
   \<and> files (snd (run asciiRuntime exampleParser collidingInvocation exampleWorld))
         (TEMPLATE_FILE_PATH collidingInvocation) = Some exampleOutput
   \<and> exampleOutput \<noteq> smallTemplate"
  using colliding_run exampleOutput_differs
  by (simp add: collidingPaths exampleWorld_def)

text \<open>
  Claim C3, amended: for every run that starts with a template file at the template
  path and whose output path is not the template path, template creation is skipped
  and the template file has the same content when the run ends, however the run ends.
\<close>

theorem C3_existing_template_untouched:
  assumes "files w (TEMPLATE_FILE_PATH a) = Some template"
    and "OUTPUT_FILE_PATH a \<noteq> TEMPLATE_FILE_PATH a"
  shows "generateTemplateFile a w = (Returned (), w)
         \<and> files (snd (run rt createSourceFile a w)) (TEMPLATE_FILE_PATH a) = Some template"
proof -
  have ex: "existsSync (TEMPLATE_FILE_PATH a) w"
    using assms(1) by (simp add: existsSync_def)
  then have "generateTemplateFile a w = (Returned (), w)"
    by (rule generateTemplateFile_exists)
  moreover have "files (snd (run rt createSourceFile a w)) (TEMPLATE_FILE_PATH a)
      = files w (TEMPLATE_FILE_PATH a)"
    using assms(2) ex by (intro run_frame) auto
  ultimately show ?thesis using assms(1) by simp
qed

text \<open>The theorem at the example invocation, whose output file is \<open>/w/src/api.ts\<close>.\<close>

theorem C3_existing_template_untouched_witness:
  "files exampleWorld (TEMPLATE_FILE_PATH exampleInvocation) = Some smallTemplate
   \<and> OUTPUT_FILE_PATH exampleInvocation \<noteq> TEMPLATE_FILE_PATH exampleInvocation
   \<and> generateTemplateFile exampleInvocation exampleWorld = (Returned (), exampleWorld)
   \<and> fst (run asciiRuntime exampleParser exampleInvocation exampleWorld) = Completed
   \<and> files (snd (run asciiRuntime exampleParser exampleInvocation exampleWorld))
         (TEMPLATE_FILE_PATH exampleInvocation) = Some smallTemplate"
proof -
  have template: "files exampleWorld (TEMPLATE_FILE_PATH exampleInvocation) = Some smallTemplate"
    by (simp add: examplePaths exampleWorld_def)
  have paths: "OUTPUT_FILE_PATH exampleInvocation \<noteq> TEMPLATE_FILE_PATH exampleInvocation"
    by (simp add: examplePaths)
  show ?thesis
    using C3_existing_template_untouched [OF template paths, of asciiRuntime exampleParser] template paths
    by (simp add: example_run)
qed

text \<open>
  Claim C4. Take a run that completes. Every other completed run of the same
  invocation that reads the same schema and the same template (the template as it is
  after the template step) writes the same content to the output file. And when the
  output path is neither the schema path nor the template path, so that the run itself
  changes neither, a second run started in the world the first one left completes and
  leaves every file, the output file included, with the same content.
\<close>

theorem C4_regeneration_same_output:
  assumes "run rt createSourceFile a w = (Completed, w1)"
  shows "(\<forall>v v1. run rt createSourceFile a v = (Completed, v1)
            \<and> readFileSync (TYPE_FILE_PATH a) (snd (generateTemplateFile a v))
                = readFileSync (TYPE_FILE_PATH a) (snd (generateTemplateFile a w))
            \<and> readFileSync (TEMPLATE_FILE_PATH a) (snd (generateTemplateFile a v))
                = readFileSync (TEMPLATE_FILE_PATH a) (snd (generateTemplateFile a w))
          \<longrightarrow> files v1 (OUTPUT_FILE_PATH a) = files w1 (OUTPUT_FILE_PATH a))
       \<and> (OUTPUT_FILE_PATH a \<noteq> TYPE_FILE_PATH a \<and> OUTPUT_FILE_PATH a \<noteq> TEMPLATE_FILE_PATH a
          \<longrightarrow> (\<exists>w2. run rt createSourceFile a w1 = (Completed, w2) \<and> files w2 = files w1))"
proof (intro conjI allI impI)
  fix v v1
  assume h: "run rt createSourceFile a v = (Completed, v1)
            \<and> readFileSync (TYPE_FILE_PATH a) (snd (generateTemplateFile a v))
                = readFileSync (TYPE_FILE_PATH a) (snd (generateTemplateFile a w))
            \<and> readFileSync (TEMPLATE_FILE_PATH a) (snd (generateTemplateFile a v))
                = readFileSync (TEMPLATE_FILE_PATH a) (snd (generateTemplateFile a w))"
  from assms obtain x1 schema template where
    x: "generateTemplateFile a w = (Returned (), x1)"
    "readFileSync (TYPE_FILE_PATH a) x1 = Returned schema"
    "readFileSync (TEMPLATE_FILE_PATH a) x1 = Returned template"
    "files w1 (OUTPUT_FILE_PATH a)
       = Some (replace template placeholder (tableMethods rt (tableNamesOf (createSourceFile schema))))"
    by (rule run_Completed_output)
  from h obtain y1 schema' template' where
    y: "generateTemplateFile a v = (Returned (), y1)"
    "readFileSync (TYPE_FILE_PATH a) y1 = Returned schema'"
    "readFileSync (TEMPLATE_FILE_PATH a) y1 = Returned template'"
    "files v1 (OUTPUT_FILE_PATH a)
       = Some (replace template' placeholder (tableMethods rt (tableNamesOf (createSourceFile schema'))))"
    by (blast elim: run_Completed_output)
  from h x y have "schema' = schema" "template' = template" by simp_all
  with x y show "files v1 (OUTPUT_FILE_PATH a) = files w1 (OUTPUT_FILE_PATH a)" by simp
next
  assume "OUTPUT_FILE_PATH a \<noteq> TYPE_FILE_PATH a \<and> OUTPUT_FILE_PATH a \<noteq> TEMPLATE_FILE_PATH a"
  with assms show "\<exists>w2. run rt createSourceFile a w1 = (Completed, w2) \<and> files w2 = files w1"
    by (blast intro: second_run)
qed

text \<open>
  The theorem at the example: the first run leaves \<open>generatedWorld\<close>, which is also the
  world \<open>v\<close> of the first part; the second run starts there.
\<close>

theorem C4_regeneration_same_output_witness:
  "run asciiRuntime exampleParser exampleInvocation exampleWorld = (Completed, generatedWorld)
   \<and> OUTPUT_FILE_PATH exampleInvocation \<noteq> TYPE_FILE_PATH exampleInvocation
   \<and> OUTPUT_FILE_PATH exampleInvocation \<noteq> TEMPLATE_FILE_PATH exampleInvocation
   \<and> readFileSync (TYPE_FILE_PATH exampleInvocation)
         (snd (generateTemplateFile exampleInvocation generatedWorld))
       = readFileSync (TYPE_FILE_PATH exampleInvocation)
           (snd (generateTemplateFile exampleInvocation exampleWorld))
   \<and> readFileSync (TEMPLATE_FILE_PATH exampleInvocation)
         (snd (generateTemplateFile exampleInvocation generatedWorld))
       = readFileSync (TEMPLATE_FILE_PATH exampleInvocation)
           (snd (generateTemplateFile exampleInvocation exampleWorld))
   \<and> fst (run asciiRuntime exampleParser exampleInvocation generatedWorld) = Completed
   \<and> files (snd (run asciiRuntime exampleParser exampleInvocation generatedWorld)) = files generatedWorld
   \<and> files (snd (run asciiRuntime exampleParser exampleInvocation generatedWorld))
         (OUTPUT_FILE_PATH exampleInvocation) = Some exampleOutput"
proof -
  note inst = C4_regeneration_same_output [OF example_run]
  have paths: "OUTPUT_FILE_PATH exampleInvocation \<noteq> TYPE_FILE_PATH exampleInvocation
      \<and> OUTPUT_FILE_PATH exampleInvocation \<noteq> TEMPLATE_FILE_PATH exampleInvocation"
    by (simp add: examplePaths)
  with inst obtain w2 where
    second: "run asciiRuntime exampleParser exampleInvocation generatedWorld = (Completed, w2)"
    and same: "files w2 = files generatedWorld"
    by blast
  have reads: "readFileSync (TYPE_FILE_PATH exampleInvocation)
         (snd (generateTemplateFile exampleInvocation generatedWorld))
       = readFileSync (TYPE_FILE_PATH exampleInvocation)
           (snd (generateTemplateFile exampleInvocation exampleWorld))"
    "readFileSync (TEMPLATE_FILE_PATH exampleInvocation)
         (snd (generateTemplateFile exampleInvocation generatedWorld))
       = readFileSync (TEMPLATE_FILE_PATH exampleInvocation)
           (snd (generateTemplateFile exampleInvocation exampleWorld))"
    by (simp_all add: generatedSteps exampleSteps)
  with inst second have "files w2 (OUTPUT_FILE_PATH exampleInvocation)
      = files generatedWorld (OUTPUT_FILE_PATH exampleInvocation)"
    by blast
  moreover have "files generatedWorld (OUTPUT_FILE_PATH exampleInvocation) = Some exampleOutput"
    by (simp add: generatedWorld_def examplePaths)
  ultimately show ?thesis
    using example_run paths reads second same by simp
qed

section \<open>Claims about extraction and assembly\<close>




text \<open>
  Claim C6 says that the first occurrence of the placeholder is replaced with the
  joined method blocks. The replacement text is handed to \<open>replace\<close> as a string, and
  \<open>replace\<close> expands dollar patterns in it. For the table \<open>a$\<close> every block holds the
  quoted name \<open>'a$'\<close>, whose last two characters are the pattern for the text behind
  the match: the text put in place of the placeholder is not the joined blocks.
\<close>

theorem C6_dollar_in_table_name:
  "tableNamesOf dollarSourceFile = [''a$'']
   \<and> smallTemplate = ''class Api {\<newline>  '' @ placeholder @ ''\<newline>}''
   \<and> replace smallTemplate placeholder (tableMethods asciiRuntime [''a$''])
       = ''class Api {\<newline>  ''
         @ getSubstitution placeholder ''class Api {\<newline>  '' ''\<newline>}'' (generateMethodsForTable asciiRuntime ''a$'')
         @ ''\<newline>}''
   \<and> replace smallTemplate placeholder (tableMethods asciiRuntime [''a$''])
       \<noteq> ''class Api {\<newline>  '' @ tableMethods asciiRuntime [''a$''] @ ''\<newline>}''"
proof -
  have r: "replace smallTemplate placeholder (tableMethods asciiRuntime [''a$''])
       = ''class Api {\<newline>  ''
         @ getSubstitution placeholder ''class Api {\<newline>  '' ''\<newline>}'' (generateMethodsForTable asciiRuntime ''a$'')
         @ ''\<newline>}''"
    using replace_first [OF smallTemplate_split, of "tableMethods asciiRuntime [''a$'']"]
    by (simp add: tableMethods_def)
  have "''class Api {\<newline>  ''
         @ getSubstitution placeholder ''class Api {\<newline>  '' ''\<newline>}'' (generateMethodsForTable asciiRuntime ''a$'')
         @ ''\<newline>}''
       \<noteq> ''class Api {\<newline>  '' @ tableMethods asciiRuntime [''a$''] @ ''\<newline>}''"
    using dollarBlock by (simp add: tableMethods_def)
  with r show ?thesis
    using dollarNames by (simp add: smallTemplate_def placeholder_def)
qed

section \<open>Claims about error handling\<close>

text \<open>
  Claim C8. \<open>updateMany\<close> sends one request per element of \<open>updates\<close>, in order. When
  the requests of the elements \<open>earlier\<close> get no error and the request of the next
  element \<open>failing\<close> gets the error \<open>e\<close>, the requests sent are those of \<open>earlier\<close> and of
  \<open>failing\<close> and no other (nothing is sent for \<open>rest\<close>), the call ends with \<open>e\<close> thrown,
  logged once, and no list of updated records is returned.
\<close>

theorem C8_updateMany_stops_at_first_failure:
  fixes client :: "('d, 'i, 'r, 'e) client"
  assumes "updates = earlier @ [failing] @ rest"
    and "\<forall>j<length earlier.
           error (client (sent s @ map (updateRequest tableName (idFieldOf options)) (take j earlier))
                    (updateRequest tableName (idFieldOf options) (earlier ! j))) = None"
    and "error (client (sent s @ map (updateRequest tableName (idFieldOf options)) earlier)
                  (updateRequest tableName (idFieldOf options) failing)) = Some e"
  shows "updateMany client tableName updates options s
         = (Inl e,
            s\<lparr>sent := sent s @ map (updateRequest tableName (idFieldOf options)) earlier
                          @ [updateRequest tableName (idFieldOf options) failing],
              errorLog := errorLog s @ [(''Error in updateMany for '' @ tableName @ '':'', e)]\<rparr>)"
  using updateLoop_stops [OF assms(2) assms(3), of rest "[]"] assms(1)
  by (simp add: updateMany_def)

text \<open>
  The theorem at three update requests of which the second is refused: the first is
  sent and succeeds, the third is never sent.
\<close>

theorem C8_updateMany_stops_at_first_failure_witness:
  "[(1, ''a''), (2, ''b''), (3, ''c'')] = [(1, ''a'')] @ [(2::nat, ''b'')] @ [(3, ''c'')]
   \<and> error (refusingClient [] (updateRequest ''post'' ''id'' (1, ''a''))) = None
   \<and> error (refusingClient [updateRequest ''post'' ''id'' (1, ''a'')]
               (updateRequest ''post'' ''id'' (2, ''b''))) = Some ''refused''
   \<and> updateMany refusingClient ''post'' [(1, ''a''), (2, ''b''), (3, ''c'')] None
         \<lparr>sent = [], errorLog = []\<rparr>
       = (Inl ''refused'',
          \<lparr>sent = [updateRequest ''post'' ''id'' (1, ''a''), updateRequest ''post'' ''id'' (2, ''b'')],
            errorLog = [(''Error in updateMany for post:'', ''refused'')]\<rparr>)"
proof -
  let ?s = "\<lparr>sent = [], errorLog = []\<rparr> :: (string, nat, string) client_state"
  have split: "[(1, ''a''), (2, ''b''), (3, ''c'')] = [(1, ''a'')] @ [(2::nat, ''b'')] @ [(3, ''c'')]"
    by simp
  have ok: "\<forall>j<length [(1::nat, ''a'')].
      error (refusingClient
               (sent ?s @ map (updateRequest ''post'' (idFieldOf None)) (take j [(1, ''a'')]))
               (updateRequest ''post'' (idFieldOf None) ([(1, ''a'')] ! j))) = None"
    by (simp add: refusingClient_def updateRequest_def)
  have refused: "error (refusingClient
               (sent ?s @ map (updateRequest ''post'' (idFieldOf None)) [(1, ''a'')])
               (updateRequest ''post'' (idFieldOf None) (2, ''b''))) = Some ''refused''"
    by (simp add: refusingClient_def updateRequest_def)
  have e1: "error (refusingClient [] (updateRequest ''post'' ''id'' (1, ''a''))) = None"
    and e2: "error (refusingClient [updateRequest ''post'' ''id'' (1, ''a'')]
               (updateRequest ''post'' ''id'' (2, ''b''))) = Some ''refused''"
    by (simp_all add: refusingClient_def updateRequest_def)
  have "updateMany refusingClient ''post'' [(1, ''a''), (2, ''b''), (3, ''c'')] None ?s
       = (Inl ''refused'',
          \<lparr>sent = [updateRequest ''post'' ''id'' (1, ''a''), updateRequest ''post'' ''id'' (2, ''b'')],
            errorLog = [(''Error in updateMany for post:'', ''refused'')]\<rparr>)"
    using C8_updateMany_stops_at_first_failure [OF split ok refused]
    by (simp add: idFieldOf_def)
  with e1 e2 show ?thesis by simp
qed

text \<open>
  Claim C9. In a run that reaches the deletion of an existing output file (the
  template step, the extraction, the reading of the template and the directory step
  returned), if \<open>unlinkSync\<close> throws, then \<open>generateApiClass\<close> still returns, with the
  error written to the console and the write pending, and the run ends as the write of
  the new output content ends: completed when the write returns, and with the write's
  error when it throws.
\<close>

theorem C9_delete_failure_not_fatal:
  assumes args: "typeFilePath a \<noteq> []" "outputFilePath a \<noteq> []"
    and reached: "generateTemplateFile a w = (Returned (), w1)"
      "readFileSync (TYPE_FILE_PATH a) w1 = Returned schema"
      "readFileSync (TEMPLATE_FILE_PATH a) w1 = Returned template"
      "ensureOutputDir a w1 = (Returned (), w2)"
    and existing: "existsSync (OUTPUT_FILE_PATH a) w2"
    and failure: "unlinkSync (OUTPUT_FILE_PATH a) w2 = (Threw e, w2')"
  shows "let names = tableNamesOf (createSourceFile schema);
             content = replace template placeholder (tableMethods rt names);
             logged = consoleError (''Error deleting file at '' @ OUTPUT_FILE_PATH a @ '':'') (Some e) w2
         in generateApiClass rt createSourceFile a w = (Returned (content, names), logged)
            \<and> run rt createSourceFile a w
              = (case writeFileSync (OUTPUT_FILE_PATH a) content logged of
                   (Threw e', w4) \<Rightarrow> (Uncaught e', w4)
                 | (Returned u, w4) \<Rightarrow>
                     (Completed,
                      consoleLog (''Tables: '' @ join '', '' names)
                        (consoleLog (''Successfully generated SupabaseApiGenerator with methods for ''
                           @ decimal (length names) @ '' tables!'') w4)))"
proof -
  define names where "names = tableNamesOf (createSourceFile schema)"
  define content where "content = replace template placeholder (tableMethods rt names)"
  define logged where
    "logged = consoleError (''Error deleting file at '' @ OUTPUT_FILE_PATH a @ '':'') (Some e) w2"
  from failure have "w2' = w2" by (rule unlinkSync_Threw)
  with existing failure have d: "deleteExistingOutput a w2 = logged"
    by (simp add: deleteExistingOutput_def logged_def)
  with reached
  have g: "generateApiClass rt createSourceFile a w = (Returned (content, names), logged)"
    by (auto simp: generateApiClass_Returned names_def content_def)
  obtain r w4 where wr: "writeFileSync (OUTPUT_FILE_PATH a) content logged = (r, w4)"
    by (cases "writeFileSync (OUTPUT_FILE_PATH a) content logged")
  have "run rt createSourceFile a w
           = (case writeFileSync (OUTPUT_FILE_PATH a) content logged of
                (Threw e', w4) \<Rightarrow> (Uncaught e', w4)
              | (Returned u, w4) \<Rightarrow>
                  (Completed,
                   consoleLog (''Tables: '' @ join '', '' names)
                     (consoleLog (''Successfully generated SupabaseApiGenerator with methods for ''
                        @ decimal (length names) @ '' tables!'') w4)))"
    using args g wr by (cases r) (simp_all add: run_def writeOutput_def)
  with g show ?thesis
    unfolding Let_def names_def content_def logged_def by (rule conjI)
qed

text \<open>
  The theorem in the world whose output file cannot be deleted: the error is logged,
  the write replaces the content, the run completes.
\<close>

theorem C9_delete_failure_not_fatal_witness:
  "typeFilePath exampleInvocation \<noteq> [] \<and> outputFilePath exampleInvocation \<noteq> []
   \<and> generateTemplateFile exampleInvocation lockedWorld = (Returned (), lockedWorld)
   \<and> readFileSync (TYPE_FILE_PATH exampleInvocation) lockedWorld = Returned exampleSchema
   \<and> readFileSync (TEMPLATE_FILE_PATH exampleInvocation) lockedWorld = Returned smallTemplate
   \<and> ensureOutputDir exampleInvocation lockedWorld = (Returned (), lockedWorld)
   \<and> existsSync (OUTPUT_FILE_PATH exampleInvocation) lockedWorld
   \<and> unlinkSync (OUTPUT_FILE_PATH exampleInvocation) lockedWorld = (Threw EACCES, lockedWorld)
   \<and> fst (run asciiRuntime exampleParser exampleInvocation lockedWorld) = Completed
   \<and> files (snd (run asciiRuntime exampleParser exampleInvocation lockedWorld)) ''/w/src/api.ts''
       = Some exampleOutput
   \<and> console (snd (run asciiRuntime exampleParser exampleInvocation lockedWorld))
       = ConsoleError ''Error deleting file at /w/src/api.ts:'' (Some EACCES) # exampleReport"
proof -
  have steps:
    "generateTemplateFile exampleInvocation lockedWorld = (Returned (), lockedWorld)"
    "readFileSync (TYPE_FILE_PATH exampleInvocation) lockedWorld = Returned exampleSchema"
    "readFileSync (TEMPLATE_FILE_PATH exampleInvocation) lockedWorld = Returned smallTemplate"
    "ensureOutputDir exampleInvocation lockedWorld = (Returned (), lockedWorld)"
    by (simp_all add: fsSteps examplePaths lockedWorld_def)
  have existing: "existsSync (OUTPUT_FILE_PATH exampleInvocation) lockedWorld"
    by (simp add: existsSync_def examplePaths lockedWorld_def)
  have failure: "unlinkSync (OUTPUT_FILE_PATH exampleInvocation) lockedWorld = (Threw EACCES, lockedWorld)"
    by (simp add: unlinkSync_def examplePaths lockedWorld_def)
  let ?logged = "consoleError ''Error deleting file at /w/src/api.ts:'' (Some EACCES) lockedWorld"
  let ?written = "?logged\<lparr>files := (files ?logged)(''/w/src/api.ts'' \<mapsto> exampleOutput)\<rparr>"
  have written: "writeFileSync ''/w/src/api.ts'' exampleOutput ?logged = (Returned (), ?written)"
    by (simp add: writeFileSync_def examplePaths lockedWorld_def consoleError_def)
  have "run asciiRuntime exampleParser exampleInvocation lockedWorld
      = (case writeFileSync ''/w/src/api.ts'' exampleOutput ?logged of
           (Threw e', w4) \<Rightarrow> (Uncaught e', w4)
         | (Returned u, w4) \<Rightarrow>
             (Completed,
              consoleLog (''Tables: '' @ join '', '' [''post'', ''user_type''])
                (consoleLog (''Successfully generated SupabaseApiGenerator with methods for ''
                   @ decimal (length [''post'', ''user_type'']) @ '' tables!'') w4)))"
    using C9_delete_failure_not_fatal [where createSourceFile = exampleParser,
        OF exampleArguments(1,2) steps existing failure]
    by (simp add: Let_def examplePaths exampleParser_schema exampleNames exampleOutput_def)
  then have "run asciiRuntime exampleParser exampleInvocation lockedWorld
      = (Completed,
         consoleLog (''Tables: '' @ join '', '' [''post'', ''user_type''])
           (consoleLog (''Successfully generated SupabaseApiGenerator with methods for ''
              @ decimal (length [''post'', ''user_type'']) @ '' tables!'') ?written))"
    by (simp only: written prod.case result.case)
  then show ?thesis
    using steps existing failure
    by (simp add: exampleArguments consoleLog_def consoleError_def lockedWorld_def exampleReport_def)
qed

section \<open>Claim about the extraction pattern\<close>



end
